theory Spec2Isabelle
  imports Main "HOL-Library.AList" "HOL-Library.Sublist" "HOL-Library.Multiset"
begin

section \<open>The candidate-fix model (server.ts: AutoFix, Fixes)\<close>

text \<open>
  \<^verbatim>\<open>interface StylintAutoFixEdit { range: [number, number]; text: string; }\<close>
  The offsets are the integers the linter reports; the pair is \<open>(range[0], range[1])\<close>.
\<close>

record StylintAutoFixEdit =
  range_edit :: "int \<times> int"
  text_edit :: string

record AutoFix =
  label :: string
  documentVersion :: int
  ruleId :: string
  edit :: StylintAutoFixEdit

text \<open>
  A \<^verbatim>\<open>Map<string, AutoFix>\<close> keeps its keys in insertion order and \<^verbatim>\<open>set\<close> on a
  present key replaces the value in place: an association list with
  \<^const>\<open>AList.update\<close> and \<^const>\<open>map_of\<close>.
\<close>

type_synonym EditMap = "(string \<times> AutoFix) list"

text \<open>\<^verbatim>\<open>Fixes.overlaps(lastEdit, newEdit)\<close>: \<open>lastEdit\<close> may be \<^verbatim>\<open>undefined\<close>.\<close>

fun overlaps :: "AutoFix option \<Rightarrow> AutoFix \<Rightarrow> bool" where
  "overlaps None newEdit = False"
| "overlaps (Some lastEdit) newEdit =
     (snd (range_edit (edit lastEdit)) > fst (range_edit (edit newEdit)))"

definition isEmpty :: "EditMap \<Rightarrow> bool" where
  "isEmpty edits = (length edits = 0)"

text \<open>The comparator handed to \<^verbatim>\<open>Array.prototype.sort\<close> in \<^verbatim>\<open>getAllSorted\<close>.\<close>

definition compareFixes :: "AutoFix \<Rightarrow> AutoFix \<Rightarrow> int" where
  "compareFixes a b =
     (let d = fst (range_edit (edit a)) - fst (range_edit (edit b)) in
      if d \<noteq> 0 then d
      else if snd (range_edit (edit a)) = 0 then - 1
      else if snd (range_edit (edit b)) = 0 then 1
      else snd (range_edit (edit a)) - snd (range_edit (edit b)))"

text \<open>
  \<^verbatim>\<open>Array.prototype.sort(comparefn)\<close> is the runtime's; it is taken as a stable
  comparison sort that places \<open>x\<close> before \<open>y\<close> when \<open>comparefn x y \<le> 0\<close>:
  insertion from the right.
\<close>

fun insertBy :: "('a \<Rightarrow> 'a \<Rightarrow> int) \<Rightarrow> 'a \<Rightarrow> 'a list \<Rightarrow> 'a list" where
  "insertBy c x [] = [x]"
| "insertBy c x (y # ys) = (if c x y \<le> 0 then x # y # ys else y # insertBy c x ys)"

definition sortBy :: "('a \<Rightarrow> 'a \<Rightarrow> int) \<Rightarrow> 'a list \<Rightarrow> 'a list" where
  "sortBy c xs = foldr (insertBy c) xs []"

definition getAllSorted :: "EditMap \<Rightarrow> AutoFix list" where
  "getAllSorted edits = sortBy compareFixes (map snd edits)"

text \<open>The \<^verbatim>\<open>for\<close> loop of \<^verbatim>\<open>getOverlapFree\<close>: \<open>last\<close>, \<open>result\<close>, and the entries still to visit.\<close>

fun overlapFreeLoop :: "AutoFix \<Rightarrow> AutoFix list \<Rightarrow> AutoFix list \<Rightarrow> AutoFix list" where
  "overlapFreeLoop last_edit result [] = result"
| "overlapFreeLoop last_edit result (current # rest) =
     (if \<not> overlaps (Some last_edit) current
      then overlapFreeLoop current (result @ [current]) rest
      else overlapFreeLoop last_edit result rest)"

text \<open>The body of \<^verbatim>\<open>getOverlapFree\<close> after \<^verbatim>\<open>let sorted = this.getAllSorted()\<close>.\<close>

definition overlapFreeOf :: "AutoFix list \<Rightarrow> AutoFix list" where
  "overlapFreeOf sorted_edits =
     (if length sorted_edits \<le> 1 then sorted_edits
      else (case sorted_edits of
              [] \<Rightarrow> []
            | first # rest \<Rightarrow> overlapFreeLoop first [first] rest))"

definition getOverlapFree :: "EditMap \<Rightarrow> AutoFix list" where
  "getOverlapFree edits = overlapFreeOf (getAllSorted edits)"

text \<open>
  The order the specification describes for \<open>sortedAll()\<close>: start offset ascending; at
  equal start, end offset ascending, but an end offset of 0 before any nonzero one.
\<close>

definition sortedAllOrder :: "AutoFix \<Rightarrow> AutoFix \<Rightarrow> bool" where
  "sortedAllOrder a b =
     (fst (range_edit (edit a)) < fst (range_edit (edit b)) \<or>
      (fst (range_edit (edit a)) = fst (range_edit (edit b)) \<and>
       (snd (range_edit (edit a)) = 0 \<or>
        (snd (range_edit (edit b)) \<noteq> 0 \<and>
         snd (range_edit (edit a)) \<le> snd (range_edit (edit b))))))"

section \<open>Diagnostics (server.ts: makeDiagnostic, convertSeverity, computeKey)\<close>

datatype DiagnosticSeverity = SeverityError | SeverityWarning | SeverityInformation | SeverityHint

record Position =
  pos_line :: int
  pos_character :: int

record Range =
  range_start :: Position
  range_end :: Position

text \<open>The fields \<^verbatim>\<open>message, severity, source, range, code\<close> of a \<^verbatim>\<open>Diagnostic\<close>.\<close>

record Diagnostic =
  diag_message :: string
  diag_severity :: DiagnosticSeverity
  diag_source :: string
  diag_range :: Range
  diag_code :: "string option"

text \<open>
  \<^verbatim>\<open>interface StylintProblem\<close>. An optional field, and a \<^verbatim>\<open>rule\<close> that is
  \<^verbatim>\<open>null\<close> or \<^verbatim>\<open>undefined\<close>, is \<open>None\<close>.
\<close>

record StylintProblem =
  line :: int
  column :: int
  severity :: string
  rule :: "string option"
  message :: string
  endLine :: "int option"
  endColumn :: "int option"
  fix_p :: "StylintAutoFixEdit option"

definition convertSeverity :: "string \<Rightarrow> DiagnosticSeverity" where
  "convertSeverity sev =
     (if sev = ''Warning'' then SeverityWarning
      else if sev = ''Error'' then SeverityError
      else SeverityError)"

definition makeDiagnostic :: "StylintProblem \<Rightarrow> Diagnostic" where
  "makeDiagnostic problem =
     (let msg = (case rule problem of
                   Some r \<Rightarrow> message problem @ '' ('' @ r @ '')''
                 | None \<Rightarrow> message problem);
          startLine = max 0 (line problem - 1);
          startChar = max 0 (column problem - 1);
          endLine' = (case endLine problem of Some l \<Rightarrow> max 0 (l - 1) | None \<Rightarrow> startLine);
          endChar = (case endColumn problem of Some c \<Rightarrow> max 0 (c - 1) | None \<Rightarrow> startChar)
      in \<lparr> diag_message = msg,
           diag_severity = convertSeverity (severity problem),
           diag_source = ''stylint'',
           diag_range = \<lparr> range_start = \<lparr> pos_line = startLine, pos_character = startChar \<rparr>,
                          range_end = \<lparr> pos_line = endLine', pos_character = endChar \<rparr> \<rparr>,
           diag_code = rule problem \<rparr>)"

text \<open>Decimal rendering of a number inside a template literal.\<close>

fun showNat :: "nat \<Rightarrow> string" where
  "showNat n =
     (if n < 10 then [''0123456789'' ! n]
      else showNat (n div 10) @ [''0123456789'' ! (n mod 10)])"

declare showNat.simps [simp del]

definition showInt :: "int \<Rightarrow> string" where
  "showInt i = (if i < 0 then CHR ''-'' # showNat (nat (- i)) else showNat (nat i))"

definition computeKey :: "Diagnostic \<Rightarrow> string" where
  "computeKey diagnostic =
     (let r = diag_range diagnostic in
      ''['' @ showInt (pos_line (range_start r)) @ '','' @
      showInt (pos_character (range_start r)) @ '','' @
      showInt (pos_line (range_end r)) @ '','' @
      showInt (pos_character (range_end r)) @ '']-'' @
      (case diag_code diagnostic of Some c \<Rightarrow> c | None \<Rightarrow> ''undefined''))"

section \<open>Documents, edits and the server state\<close>

text \<open>
  A \<^verbatim>\<open>TextDocument\<close> object of the language-server library: its \<^verbatim>\<open>uri\<close>, its
  \<^verbatim>\<open>version\<close>, and \<^verbatim>\<open>positionAt\<close>, the library's conversion of an offset into a
  position, which depends on the text and is carried as a field.
\<close>

record TextDocument =
  uri :: string
  version :: int
  positionAt :: "int \<Rightarrow> Position"

record VersionedTextDocumentIdentifier =
  id_uri :: string
  id_version :: int

record TextEdit =
  te_range :: Range
  newText :: string

text \<open>
  A \<^verbatim>\<open>WorkspaceChange\<close> on which \<^verbatim>\<open>getTextEditChange({uri, version})\<close> was called
  once, with the edits added to it.
\<close>

record WorkspaceChange =
  wc_uri :: string
  wc_version :: int
  wc_edits :: "TextEdit list"

record CodeAction =
  title :: string
  ca_command :: string
  ca_kind :: string

text \<open>
  A \<^verbatim>\<open>StylintModule\<close> object is shared by reference between the settings and the
  error-dedup maps; it is modelled by its identity.
\<close>

type_synonym StylintModule = nat

text \<open>A thrown value: the fields of \<^verbatim>\<open>StylintError\<close> the server reads.\<close>

record StylintError =
  err_message :: "string option"
  messageTemplate :: "string option"
  err_stack :: "string option"

datatype Status = ok | warn | error

text \<open>What the server sends to the client, in order.\<close>

datatype client_event =
    StatusNotification Status
  | NoConfigRequest string string
  | NoStylintLibraryRequest string
  | ConsoleError string
  | ShowInformationMessage string
  | ShowErrorMessage string
  | ApplyEdit WorkspaceChange

text \<open>
  The module-level variables of the server and the process state it touches.
  \<^verbatim>\<open>documents\<close> maps a uri to a document object in insertion order; the objects live in
  \<open>heap\<close>, because a queued \<^verbatim>\<open>stylint/validate\<close> message holds the object itself and
  the library updates its version in place. \<^verbatim>\<open>commands\<close> is \<open>None\<close> until the first
  code-action request assigns it. \<open>published\<close> is the diagnostic set last sent for a uri.
  The three error-dedup maps record a key with the library of the settings, which may be
  \<^verbatim>\<open>undefined\<close> (\<open>Some None\<close>).
\<close>

record server =
  cwd :: string
  documents :: "(string \<times> nat) list"
  heap :: "nat \<Rightarrow> TextDocument"
  codeActions :: "string \<rightharpoonup> EditMap"
  commands :: "(string \<rightharpoonup> WorkspaceChange) option"
  noConfigReported :: "string \<rightharpoonup> StylintModule option"
  configErrorReported :: "string \<rightharpoonup> StylintModule option"
  missingModuleReported :: "string \<rightharpoonup> StylintModule option"
  published :: "string \<rightharpoonup> Diagnostic list"
  outbox :: "client_event list"

definition documents_get :: "server \<Rightarrow> string \<Rightarrow> TextDocument option" where
  "documents_get s u = map_option (heap s) (map_of (documents s) u)"

definition documents_all :: "server \<Rightarrow> nat list" where
  "documents_all s = map snd (documents s)"

definition applySingleFix :: string where "applySingleFix = ''stylint.applySingleFix''"
definition applySameFixes :: string where "applySameFixes = ''stylint.applySameFixes''"
definition applyAllFixes :: string where "applyAllFixes = ''stylint.applyAllFixes''"
definition applyAutoFix :: string where "applyAutoFix = ''stylint.applyAutoFix''"

text \<open>A runtime \<^verbatim>\<open>TypeError\<close> (a property read or call on \<^verbatim>\<open>undefined\<close>).\<close>

definition typeError :: StylintError where
  "typeError = \<lparr> err_message = Some ''TypeError'', messageTemplate = None,
                  err_stack = Some ''TypeError'' \<rparr>"

section \<open>Recording and selecting fixes\<close>

text \<open>
  \<^verbatim>\<open>recordCodeAction\<close>: \<^verbatim>\<open>!problem.rule\<close> also holds for the empty string.
\<close>

definition recordCodeAction ::
  "TextDocument \<Rightarrow> Diagnostic \<Rightarrow> StylintProblem \<Rightarrow> server \<Rightarrow> server" where
  "recordCodeAction document diagnostic problem s =
     (case (fix_p problem, rule problem) of
        (Some f, Some r) \<Rightarrow>
          if r = [] then s
          else
            let edits = (case codeActions s (uri document) of None \<Rightarrow> [] | Some es \<Rightarrow> es);
                entry = \<lparr> label = ''Fix this '' @ r @ '' problem'',
                          documentVersion = version document, ruleId = r, edit = f \<rparr>
            in s\<lparr> codeActions :=
                    (codeActions s)(uri document \<mapsto> AList.update (computeKey diagnostic) entry edits) \<rparr>
      | _ \<Rightarrow> s)"

text \<open>\<^verbatim>\<open>getDocumentVersion\<close> throws on an empty map.\<close>

definition getDocumentVersion :: "EditMap \<Rightarrow> StylintError + int" where
  "getDocumentVersion edits =
     (if isEmpty edits
      then Inl \<lparr> err_message = Some ''No edits recorded.'', messageTemplate = None,
                 err_stack = None \<rparr>
      else (case edits of [] \<Rightarrow> Inl typeError | (k, v) # _ \<Rightarrow> Inr (documentVersion v)))"

fun getScoped :: "EditMap \<Rightarrow> Diagnostic list \<Rightarrow> AutoFix list" where
  "getScoped edits [] = []"
| "getScoped edits (diagnostic # diagnostics) =
     (case map_of edits (computeKey diagnostic) of
        Some editInfo \<Rightarrow> editInfo # getScoped edits diagnostics
      | None \<Rightarrow> getScoped edits diagnostics)"

definition createTextEdit :: "TextDocument \<Rightarrow> AutoFix \<Rightarrow> TextEdit" where
  "createTextEdit textDocument editInfo =
     \<lparr> te_range = \<lparr> range_start = positionAt textDocument (fst (range_edit (edit editInfo))),
                    range_end = positionAt textDocument (snd (range_edit (edit editInfo))) \<rparr>,
       newText = text_edit (edit editInfo) \<rparr>"

definition getLastEdit :: "AutoFix list \<Rightarrow> AutoFix option" where
  "getLastEdit array =
     (let n = length array in if n = 0 then None else Some (array ! (n - 1)))"

section \<open>The code-action request (server.ts: the CodeActionRequest handler)\<close>

definition quickFix :: string where "quickFix = ''quickfix''"

text \<open>
  The loop over \<^verbatim>\<open>fixes.getScoped(params.context.diagnostics)\<close>. Its state is
  \<^verbatim>\<open>documentVersion\<close>, \<^verbatim>\<open>ruleId\<close>, the \<^verbatim>\<open>commands\<close> map and \<^verbatim>\<open>result\<close>; every
  iteration assigns \<^verbatim>\<open>documentVersion\<close> and \<^verbatim>\<open>ruleId\<close> anew.
\<close>

fun scopedLoop ::
  "TextDocument \<Rightarrow> string \<Rightarrow> AutoFix list \<Rightarrow>
   int \<times> string option \<times> (string \<rightharpoonup> WorkspaceChange) \<times> CodeAction list \<Rightarrow>
   int \<times> string option \<times> (string \<rightharpoonup> WorkspaceChange) \<times> CodeAction list" where
  "scopedLoop textDocument u [] st = st"
| "scopedLoop textDocument u (editInfo # rest) (dv, rid, cmds, result) =
     (let workspaceChange =
            \<lparr> wc_uri = u, wc_version = documentVersion editInfo,
              wc_edits = [createTextEdit textDocument editInfo] \<rparr>
      in scopedLoop textDocument u rest
           (documentVersion editInfo, Some (ruleId editInfo),
            cmds(applySingleFix \<mapsto> workspaceChange),
            result @ [\<lparr> title = label editInfo, ca_command = applySingleFix,
                        ca_kind = quickFix \<rparr>]))"

text \<open>
  The loop over \<^verbatim>\<open>fixes.getAllSorted()\<close> that fills \<^verbatim>\<open>same\<close> and \<^verbatim>\<open>all\<close>.
\<close>

fun bulkLoop ::
  "string option \<Rightarrow> AutoFix list \<Rightarrow> int \<times> AutoFix list \<times> AutoFix list \<Rightarrow>
   int \<times> AutoFix list \<times> AutoFix list" where
  "bulkLoop rid [] st = st"
| "bulkLoop rid (editInfo # rest) (dv, same, alls) =
     bulkLoop rid rest
       (if dv = - 1 then documentVersion editInfo else dv,
        if Some (ruleId editInfo) = rid \<and> \<not> overlaps (getLastEdit same) editInfo
        then same @ [editInfo] else same,
        if \<not> overlaps (getLastEdit alls) editInfo then alls @ [editInfo] else alls)"

definition sameTitle :: "string option \<Rightarrow> string" where
  "sameTitle rid =
     ''Fix all '' @ (case rid of Some r \<Rightarrow> r | None \<Rightarrow> ''undefined'') @ '' problems''"

definition allTitle :: string where
  "allTitle = ''Fix all auto-fixable problems''"

text \<open>
  The handler, for \<^verbatim>\<open>params.textDocument.uri = u\<close> and
  \<^verbatim>\<open>params.context.diagnostics\<close>. \<^verbatim>\<open>createTextEdit\<close> calls
  \<^verbatim>\<open>textDocument.positionAt\<close>, which throws when the document is not open.
\<close>

definition codeActionHandler ::
  "string \<Rightarrow> Diagnostic list \<Rightarrow> server \<Rightarrow> (StylintError + CodeAction list) \<times> server" where
  "codeActionHandler u diagnostics s0 =
     (let s = s0\<lparr> commands := Some Map.empty \<rparr> in
      case codeActions s u of
        None \<Rightarrow> (Inr [], s)
      | Some edits \<Rightarrow>
          if isEmpty edits then (Inr [], s)
          else
            let scoped = getScoped edits diagnostics in
            (case documents_get s u of
               None \<Rightarrow> if scoped = [] then (Inr [], s) else (Inl typeError, s)
             | Some textDocument \<Rightarrow>
                 (case scopedLoop textDocument u scoped (- 1, None, Map.empty, []) of
                    (dv, rid, cmds, result) \<Rightarrow>
                      if length result > 0 then
                        (case bulkLoop rid (getAllSorted edits) (dv, [], []) of
                           (dv2, same, alls) \<Rightarrow>
                             let (cmds2, result2) =
                                   (if length same > 1
                                    then (cmds(applySameFixes \<mapsto>
                                            \<lparr> wc_uri = u, wc_version = dv2,
                                              wc_edits = map (createTextEdit textDocument) same \<rparr>),
                                          result @ [\<lparr> title = sameTitle rid,
                                                      ca_command = applySameFixes,
                                                      ca_kind = quickFix \<rparr>])
                                    else (cmds, result));
                                 (cmds3, result3) =
                                   (if length alls > 1
                                    then (cmds2(applyAllFixes \<mapsto>
                                            \<lparr> wc_uri = u, wc_version = dv2,
                                              wc_edits = map (createTextEdit textDocument) alls \<rparr>),
                                          result2 @ [\<lparr> title = allTitle,
                                                       ca_command = applyAllFixes,
                                                       ca_kind = quickFix \<rparr>])
                                    else (cmds2, result2))
                             in (Inr result3, s\<lparr> commands := Some cmds3 \<rparr>))
                      else (Inr result, s\<lparr> commands := Some cmds \<rparr>))))"

text \<open>The version provider registered with the code-action request.\<close>

definition codeActionVersion :: "server \<Rightarrow> string \<Rightarrow> int option" where
  "codeActionVersion s u = map_option version (documents_get s u)"

section \<open>The execute-command request (server.ts: computeAllFixes, the ExecuteCommandRequest handler)\<close>

definition computeAllFixes :: "VersionedTextDocumentIdentifier \<Rightarrow> server \<Rightarrow> TextEdit list option" where
  "computeAllFixes identifier s =
     (case documents_get s (id_uri identifier) of
        None \<Rightarrow> None
      | Some textDocument \<Rightarrow>
          if id_version identifier \<noteq> version textDocument then None
          else (case codeActions s (id_uri identifier) of
                  None \<Rightarrow> None
                | Some edits \<Rightarrow>
                    if \<not> isEmpty edits
                    then Some (map (createTextEdit textDocument) (getOverlapFree edits))
                    else None))"

text \<open>
  The client's answer to \<^verbatim>\<open>connection.workspace.applyEdit\<close>: the promise resolves with
  \<^verbatim>\<open>response.applied\<close>, or rejects.
\<close>

datatype applyResponse = Applied bool | ApplyRejected

text \<open>The handler's result: \<^verbatim>\<open>{}\<close>, or \<^verbatim>\<open>undefined\<close> from the rejection callback.\<close>

datatype commandResult = EmptyObject | Undefined

definition failedToApply :: "string \<Rightarrow> client_event" where
  "failedToApply command = ConsoleError (''Failed to apply command: '' @ command)"

definition executeCommandHandler ::
  "applyResponse \<Rightarrow> string \<Rightarrow> VersionedTextDocumentIdentifier list \<Rightarrow> server \<Rightarrow>
   (StylintError + commandResult) \<times> server" where
  "executeCommandHandler response command arguments s =
     (let workspaceChange =
            (if command = applyAutoFix then
               (case arguments of
                  [] \<Rightarrow> Inl typeError
                | identifier # _ \<Rightarrow>
                    Inr (case computeAllFixes identifier s of
                           Some edits \<Rightarrow>
                             Some \<lparr> wc_uri = id_uri identifier,
                                    wc_version = id_version identifier, wc_edits = edits \<rparr>
                         | None \<Rightarrow> None))
             else (case commands s of
                     None \<Rightarrow> Inl typeError
                   | Some cmds \<Rightarrow> Inr (cmds command)))
      in case workspaceChange of
           Inl e \<Rightarrow> (Inl e, s)
         | Inr None \<Rightarrow> (Inr EmptyObject, s)
         | Inr (Some wc) \<Rightarrow>
             (let s1 = s\<lparr> outbox := outbox s @ [ApplyEdit wc] \<rparr> in
              case response of
                Applied applied \<Rightarrow>
                  (Inr EmptyObject,
                   if \<not> applied then s1\<lparr> outbox := outbox s1 @ [failedToApply command] \<rparr> else s1)
              | ApplyRejected \<Rightarrow>
                  (Inr Undefined, s1\<lparr> outbox := outbox s1 @ [failedToApply command] \<rparr>)))"

text \<open>The version provider registered with the execute-command request.\<close>

definition executeCommandVersion ::
  "string \<Rightarrow> VersionedTextDocumentIdentifier list \<Rightarrow> StylintError + int option" where
  "executeCommandVersion command arguments =
     (if command = applyAutoFix then
        (case arguments of [] \<Rightarrow> Inl typeError | identifier # _ \<Rightarrow> Inr (Some (id_version identifier)))
      else Inr None)"

section \<open>The runtime the server runs on\<close>

text \<open>The four regular expressions of the error classifiers.\<close>

datatype regex = CannotReadConfigFile | ConfigurationForRule | CannotFindModule | FailedToLoadPlugin

text \<open>
  What the server asks of Node and of the \<^verbatim>\<open>vscode-uri\<close>, \<^verbatim>\<open>path\<close> and \<^verbatim>\<open>fs\<close> modules:
  \<^item> \<open>win32\<close>: \<^verbatim>\<open>process.platform === 'win32'\<close>;
  \<^item> \<open>uriScheme\<close>, \<open>uriFsPath\<close>: \<^verbatim>\<open>URI.parse(u).scheme\<close> and \<^verbatim>\<open>URI.parse(u).fsPath\<close>;
  \<^item> \<open>uriFile\<close>: \<^verbatim>\<open>URI.file(f).toString()\<close>;
  \<^item> \<open>path_dirname\<close>, \<open>path_join\<close>: \<^verbatim>\<open>path.dirname\<close> and \<^verbatim>\<open>path.join\<close>;
  \<^item> \<open>chdirTarget c d\<close>: what \<^verbatim>\<open>process.cwd()\<close> reports after \<^verbatim>\<open>process.chdir(d)\<close>
    succeeded in directory \<open>c\<close>, and \<open>None\<close> when \<^verbatim>\<open>process.chdir(d)\<close> throws;
  \<^item> \<open>regexExec r m\<close>: the array \<^verbatim>\<open>r.exec(m)\<close> returns, \<open>None\<close> for \<^verbatim>\<open>null\<close>;
  \<^item> \<open>libraryValidates l f\<close>: the call \<^verbatim>\<open>l.validate(f)\<close> returns without throwing.
\<close>

record platform =
  win32 :: bool
  uriScheme :: "string \<Rightarrow> string"
  uriFsPath :: "string \<Rightarrow> string"
  uriFile :: "string \<Rightarrow> string"
  path_dirname :: "string \<Rightarrow> string"
  path_join :: "string \<Rightarrow> string \<Rightarrow> string"
  chdirTarget :: "string \<Rightarrow> string \<Rightarrow> string option"
  regexExec :: "regex \<Rightarrow> string \<Rightarrow> string list option"
  libraryValidates :: "StylintModule \<Rightarrow> string \<Rightarrow> bool"

definition backslash :: char where
  "backslash = CHR 0x5C"

text \<open>\<^verbatim>\<open>isUNC\<close>: \<open>pos\<close> is where the loop over the host name stops.\<close>

definition isUNC :: "platform \<Rightarrow> string \<Rightarrow> bool" where
  "isUNC pf path =
     (if \<not> win32 pf then False
      else if path = [] \<or> length path < 5 then False
      else if path ! 0 \<noteq> backslash then False
      else if path ! 1 \<noteq> backslash then False
      else
        let pos = 2 + length (takeWhile (\<lambda>c. c \<noteq> backslash) (drop 2 path)) in
        if pos = 2 then False
        else if pos + 1 \<ge> length path \<or> path ! (pos + 1) = backslash then False
        else True)"

text \<open>\<^verbatim>\<open>toUpperCase\<close> on a drive letter.\<close>

definition toUpperCase :: "char \<Rightarrow> char" where
  "toUpperCase c =
     (let n = (of_char c :: nat) in if 97 \<le> n \<and> n \<le> 122 then char_of (n - 32) else c)"

definition getFileSystemPath :: "platform \<Rightarrow> string \<Rightarrow> string" where
  "getFileSystemPath pf u =
     (let result = uriFsPath pf u in
      if win32 pf \<and> length result \<ge> 2 \<and> result ! 1 = CHR '':''
      then toUpperCase (result ! 0) # drop 1 result
      else result)"

text \<open>
  \<^verbatim>\<open>getFilePath(documentOrUri)\<close> for a uri string, where the empty string is falsy, and
  for a document object.
\<close>

definition getFilePath_uri :: "platform \<Rightarrow> string \<Rightarrow> string option" where
  "getFilePath_uri pf u =
     (if u = [] then None
      else if uriScheme pf u \<noteq> ''file'' then None
      else Some (getFileSystemPath pf u))"

definition getFilePath :: "platform \<Rightarrow> TextDocument \<Rightarrow> string option" where
  "getFilePath pf document =
     (if uriScheme pf (uri document) \<noteq> ''file'' then None
      else Some (getFileSystemPath pf (uri document)))"

definition chdirError :: "string \<Rightarrow> StylintError" where
  "chdirError d =
     \<lparr> err_message = Some (''ENOENT: no such file or directory, chdir '' @ d),
       messageTemplate = None, err_stack = Some ''Error'' \<rparr>"

definition chdir :: "platform \<Rightarrow> string \<Rightarrow> server \<Rightarrow> StylintError + server" where
  "chdir pf d s =
     (case chdirTarget pf (cwd s) d of
        None \<Rightarrow> Inl (chdirError d)
      | Some c \<Rightarrow> Inr (s\<lparr> cwd := c \<rparr>))"

section \<open>Settings and reports\<close>

datatype RunValues = onType | onSave

record WorkspaceFolder =
  wf_uri :: string
  wf_name :: string

record DirectoryItem =
  directory :: string
  changeProcessCWD :: "bool option"

text \<open>The fields of \<^verbatim>\<open>TextDocumentSettings\<close> read after the settings are resolved.\<close>

record TextDocumentSettings =
  validate_s :: bool
  autoFix :: bool
  autoFixOnSave :: bool
  stylintrcPath :: "string option"
  stylintJsonReporterPath :: string
  run :: RunValues
  workspaceFolder :: "WorkspaceFolder option"
  workingDirectory :: "DirectoryItem option"
  library :: "StylintModule option"

text \<open>
  One element of the linter's report. \<open>messages\<close> is \<open>None\<close> when the field is missing or
  not an array; an element of the array is \<open>None\<close> when it is \<^verbatim>\<open>null\<close>.
\<close>

record StylintDocumentReport =
  filePath :: string
  errorCount :: int
  warningCount :: int
  messages :: "StylintProblem option list option"

text \<open>
  What \<^verbatim>\<open>await cli.validate(file)\<close> gives: a thrown or rejected error, or the parsed
  report, \<open>None\<close> when it is not an array.
\<close>

type_synonym linterOutcome = "StylintError + StylintDocumentReport list option"

section \<open>Validation (server.ts: validate)\<close>

text \<open>The \<^verbatim>\<open>forEach\<close> over \<^verbatim>\<open>docReport.messages\<close>.\<close>

fun recordProblems ::
  "TextDocument \<Rightarrow> bool \<Rightarrow> StylintProblem option list \<Rightarrow> Diagnostic list \<times> server \<Rightarrow>
   Diagnostic list \<times> server" where
  "recordProblems document fixing [] st = st"
| "recordProblems document fixing (None # rest) st = recordProblems document fixing rest st"
| "recordProblems document fixing (Some problem # rest) (diagnostics, s) =
     (let diagnostic = makeDiagnostic problem in
      recordProblems document fixing rest
        (diagnostics @ [diagnostic],
         if fixing then recordCodeAction document diagnostic problem s else s))"

text \<open>The optional change of the working directory at the start of the \<^verbatim>\<open>try\<close> block.\<close>

definition validate_chdir ::
  "platform \<Rightarrow> string option \<Rightarrow> TextDocumentSettings \<Rightarrow> server \<Rightarrow> StylintError + server" where
  "validate_chdir pf file settings s =
     (if file \<noteq> None \<and> file \<noteq> Some [] then
        (case workingDirectory settings of
           Some wd \<Rightarrow>
             if changeProcessCWD wd = Some True then chdir pf (directory wd) s else Inr s
         | None \<Rightarrow>
             (case workspaceFolder settings of
                Some folder \<Rightarrow>
                  if uriScheme pf (wf_uri folder) = ''file''
                  then chdir pf (getFileSystemPath pf (wf_uri folder)) s
                  else Inr s
              | None \<Rightarrow> Inr s))
      else Inr s)"

text \<open>
  The \<^verbatim>\<open>try\<close> block up to the linter call: the state in which \<^verbatim>\<open>cli.validate(file)\<close> is
  invoked (no error), or what was thrown before it. Assigning the reporter and config paths to an
  \<^verbatim>\<open>undefined\<close> library throws.
\<close>

definition validate_enter ::
  "platform \<Rightarrow> TextDocument \<Rightarrow> TextDocumentSettings \<Rightarrow> server \<Rightarrow> StylintError option \<times> server" where
  "validate_enter pf document settings s =
     (case validate_chdir pf (getFilePath pf document) settings s of
        Inl e \<Rightarrow> (Some e, s)
      | Inr s1 \<Rightarrow>
          (case library settings of
             None \<Rightarrow> (Some typeError, s1)
           | Some cli \<Rightarrow> (None, s1\<lparr> codeActions := (codeActions s1)(uri document := None) \<rparr>)))"

text \<open>The rest of the \<^verbatim>\<open>try\<close> block, once the report has arrived.\<close>

definition validate_report ::
  "TextDocument \<Rightarrow> TextDocumentSettings \<Rightarrow> bool \<Rightarrow> StylintDocumentReport list option \<Rightarrow>
   server \<Rightarrow> server" where
  "validate_report document settings publishDiagnostics report s =
     (let (diagnostics, s1) =
            (case report of
               Some [docReport] \<Rightarrow>
                 (case messages docReport of
                    Some ms \<Rightarrow> recordProblems document (autoFix settings) ms ([], s)
                  | None \<Rightarrow> ([], s))
             | _ \<Rightarrow> ([], s))
      in if publishDiagnostics
         then s1\<lparr> published := (published s1)(uri document \<mapsto> diagnostics) \<rparr>
         else s1)"

definition validate_try ::
  "platform \<Rightarrow> TextDocument \<Rightarrow> TextDocumentSettings \<Rightarrow> bool \<Rightarrow> linterOutcome \<Rightarrow> server \<Rightarrow>
   (StylintError + unit) \<times> server" where
  "validate_try pf document settings publishDiagnostics outcome s =
     (case validate_enter pf document settings s of
        (Some e, s1) \<Rightarrow> (Inl e, s1)
      | (None, s2) \<Rightarrow>
          (case outcome of
             Inl e \<Rightarrow> (Inl e, s2)
           | Inr report \<Rightarrow>
               (Inr (), validate_report document settings publishDiagnostics report s2)))"

text \<open>
  \<^verbatim>\<open>validate\<close>: the \<^verbatim>\<open>try\<close> block, then the \<^verbatim>\<open>finally\<close> block, whose own
  \<^verbatim>\<open>process.chdir\<close> replaces the outcome when it throws.
\<close>

definition validate ::
  "platform \<Rightarrow> TextDocument \<Rightarrow> TextDocumentSettings \<Rightarrow> bool \<Rightarrow> linterOutcome \<Rightarrow> server \<Rightarrow>
   (StylintError + unit) \<times> server" where
  "validate pf document settings publishDiagnostics outcome s =
     (let cwd0 = cwd s in
      case validate_try pf document settings publishDiagnostics outcome s of
        (r, s1) \<Rightarrow>
          if cwd0 \<noteq> cwd s1 then
            (case chdir pf cwd0 s1 of
               Inl e \<Rightarrow> (Inl e, s1)
             | Inr s2 \<Rightarrow> (r, s2))
          else (r, s1))"

section \<open>Error classification (server.ts: the singleErrorHandlers)\<close>

definition lf :: char where "lf = CHR 0x0A"
definition cr :: char where "cr = CHR 0x0D"

text \<open>\<^verbatim>\<open>result.replace(/\r?\n/g, ' ')\<close>\<close>

fun replaceNewlines :: "string \<Rightarrow> string" where
  "replaceNewlines [] = []"
| "replaceNewlines [c] = (if c = lf then '' '' else [c])"
| "replaceNewlines (c # d # rest) =
     (if c = cr \<and> d = lf then CHR '' '' # replaceNewlines rest
      else if c = lf then CHR '' '' # replaceNewlines (d # rest)
      else c # replaceNewlines (d # rest))"

definition getMessage :: "StylintError \<Rightarrow> TextDocument \<Rightarrow> string" where
  "getMessage err document =
     (case err_message err of
        Some m \<Rightarrow>
          (let result = replaceNewlines m in
           if take 5 result = ''CLI: '' then drop 5 result else result)
      | None \<Rightarrow> ''An unknown error occurred while validating document: '' @ uri document)"

definition isNoConfigFoundError :: "StylintError \<Rightarrow> bool" where
  "isNoConfigFoundError candidate =
     (messageTemplate candidate = Some ''no-config-found'' \<or>
      err_message candidate = Some ''No Stylint configuration found.'')"

definition tryHandleNoConfig ::
  "StylintError \<Rightarrow> TextDocument \<Rightarrow> StylintModule option \<Rightarrow> server \<Rightarrow> Status option \<times> server" where
  "tryHandleNoConfig err document lib s =
     (if \<not> isNoConfigFoundError err then (None, s)
      else if noConfigReported s (uri document) = None
      then (Some warn,
            s\<lparr> outbox := outbox s @ [NoConfigRequest (getMessage err document) (uri document)],
               noConfigReported := (noConfigReported s)(uri document \<mapsto> lib) \<rparr>)
      else (Some warn, s))"

definition handleFileName ::
  "platform \<Rightarrow> StylintError \<Rightarrow> TextDocument \<Rightarrow> StylintModule option \<Rightarrow> string \<Rightarrow> server \<Rightarrow>
   Status option \<times> server" where
  "handleFileName pf err document lib filename s =
     (if configErrorReported s filename = None
      then
        (let s1 = s\<lparr> outbox := outbox s @ [ConsoleError (getMessage err document)] \<rparr>;
             s2 = (if documents_get s1 (uriFile pf filename) = None
                   then s1\<lparr> outbox := outbox s1 @ [ShowInformationMessage (getMessage err document)] \<rparr>
                   else s1)
         in (Some warn, s2\<lparr> configErrorReported := (configErrorReported s2)(filename \<mapsto> lib) \<rparr>))
      else (Some warn, s))"

definition tryHandleConfigError ::
  "platform \<Rightarrow> StylintError \<Rightarrow> TextDocument \<Rightarrow> StylintModule option \<Rightarrow> server \<Rightarrow>
   Status option \<times> server" where
  "tryHandleConfigError pf err document lib s =
     (case err_message err of
        None \<Rightarrow> (None, s)
      | Some m \<Rightarrow>
          if m = [] then (None, s)
          else
            (case regexExec pf CannotReadConfigFile m of
               Some [m0, m1, m2] \<Rightarrow> handleFileName pf err document lib m1 s
             | _ \<Rightarrow>
                 (case regexExec pf ConfigurationForRule m of
                    Some [m0, m1, m2] \<Rightarrow> handleFileName pf err document lib m1 s
                  | _ \<Rightarrow>
                      (case regexExec pf CannotFindModule m of
                         Some [m0, m1, m2] \<Rightarrow> handleFileName pf err document lib m2 s
                       | _ \<Rightarrow> (None, s)))))"

definition joinLines :: "string list \<Rightarrow> string" where
  "joinLines ls = (case ls of [] \<Rightarrow> [] | l # rest \<Rightarrow> l @ concat (map (\<lambda>x. lf # x) rest))"

definition handleMissingModule ::
  "platform \<Rightarrow> TextDocument \<Rightarrow> StylintModule option \<Rightarrow> string \<Rightarrow> string \<Rightarrow> StylintError \<Rightarrow>
   server \<Rightarrow> Status option \<times> server" where
  "handleMissingModule pf document lib plugin modul err s =
     (if missingModuleReported s plugin = None
      then
        (let place = (case getFilePath pf document of
                        Some f \<Rightarrow> if f = [] then uri document else f
                      | None \<Rightarrow> uri document);
             m = (case err_message err of Some x \<Rightarrow> x | None \<Rightarrow> []);
             s1 = s\<lparr> missingModuleReported := (missingModuleReported s)(plugin \<mapsto> lib) \<rparr>
         in (Some warn,
             s1\<lparr> outbox := outbox s1 @
                [ConsoleError
                  (if messageTemplate err = Some ''plugin-missing''
                   then joinLines
                     [[], m, ''Happened while validating '' @ place,
                      ''This can happen for a couple of reasons:'',
                      ''1. The plugin name is spelled incorrectly in an Stylint configuration file (e.g. .stylintrc).'',
                      ''2. If Stylint is installed globally, then make sure '' @ modul @
                        '' is installed globally as well.'',
                      ''3. If Stylint is installed locally, then '' @ modul @
                        '' isn'' @ [CHR 0x27] @ ''t installed correctly.'',
                      [],
                      ''Consider running stylint --debug '' @ place @
                        '' from a terminal to obtain a trace about the configuration files used.'']
                   else joinLines [m, ''Happened while validating '' @ place])] \<rparr>))
      else (Some warn, s))"

definition tryHandleMissingModule ::
  "platform \<Rightarrow> StylintError \<Rightarrow> TextDocument \<Rightarrow> StylintModule option \<Rightarrow> server \<Rightarrow>
   Status option \<times> server" where
  "tryHandleMissingModule pf err document lib s =
     (case err_message err of
        None \<Rightarrow> (None, s)
      | Some m \<Rightarrow>
          if m = [] then (None, s)
          else
            (case regexExec pf FailedToLoadPlugin m of
               Some [m0, m1, m2] \<Rightarrow> handleMissingModule pf document lib m1 m2 err s
             | _ \<Rightarrow> (None, s)))"

definition showErrorMessage :: "StylintError \<Rightarrow> TextDocument \<Rightarrow> server \<Rightarrow> Status option \<times> server" where
  "showErrorMessage err document s =
     (let s1 = s\<lparr> outbox := outbox s @
                  [ShowErrorMessage (''Stylint: '' @ getMessage err document @
                     ''. Please see the '' @ [CHR 0x27] @ ''Stylint'' @ [CHR 0x27] @
                     '' output channel for details.'')] \<rparr>
      in (Some error,
          case err_stack err of
            Some st \<Rightarrow> s1\<lparr> outbox := outbox s1 @
                           [ConsoleError ''Stylint stack trace:'', ConsoleError st] \<rparr>
          | None \<Rightarrow> s1))"

text \<open>The \<^verbatim>\<open>for\<close> loop over \<^verbatim>\<open>singleErrorHandlers\<close>: the first status that is set wins.\<close>

definition runErrorHandlers ::
  "platform \<Rightarrow> StylintError \<Rightarrow> TextDocument \<Rightarrow> StylintModule option \<Rightarrow> server \<Rightarrow>
   Status option \<times> server" where
  "runErrorHandlers pf reason document lib s =
     (case tryHandleNoConfig reason document lib s of
        (Some st, s1) \<Rightarrow> (Some st, s1)
      | (None, s1) \<Rightarrow>
          (case tryHandleConfigError pf reason document lib s1 of
             (Some st, s2) \<Rightarrow> (Some st, s2)
           | (None, s2) \<Rightarrow>
               (case tryHandleMissingModule pf reason document lib s2 of
                  (Some st, s3) \<Rightarrow> (Some st, s3)
                | (None, s3) \<Rightarrow> showErrorMessage reason document s3)))"

text \<open>
  \<^verbatim>\<open>validateSingle\<close>, given the settings \<^verbatim>\<open>resolveSettings(document)\<close> resolves to and the
  linter's outcome.
\<close>

definition validateSingle ::
  "platform \<Rightarrow> TextDocument \<Rightarrow> bool \<Rightarrow> TextDocumentSettings \<Rightarrow> linterOutcome \<Rightarrow> server \<Rightarrow> server" where
  "validateSingle pf document publishDiagnostics settings outcome s =
     (if documents_get s (uri document) = None then s
      else if \<not> validate_s settings then s
      else
        (case validate pf document settings publishDiagnostics outcome s of
           (Inr _, s1) \<Rightarrow> s1\<lparr> outbox := outbox s1 @ [StatusNotification ok] \<rparr>
         | (Inl reason, s1) \<Rightarrow>
             (case runErrorHandlers pf reason document (library settings) s1 of
                (status, s2) \<Rightarrow>
                  s2\<lparr> outbox := outbox s2 @
                       [StatusNotification (case status of Some st \<Rightarrow> st | None \<Rightarrow> error)] \<rparr>)))"

section \<open>The message queue (server.ts: BufferedMessageQueue)\<close>

text \<open>
  A queued message: \<^verbatim>\<open>method\<close>, \<^verbatim>\<open>params\<close>, \<^verbatim>\<open>documentVersion\<close> (\<open>None\<close> for
  \<^verbatim>\<open>undefined\<close>) and, for a request, its cancellation token, which also names the
  promise its \<^verbatim>\<open>resolve\<close> and \<^verbatim>\<open>reject\<close> settle.
\<close>

datatype 'p queued = Request string 'p "int option" nat | Notification string 'p "int option"

datatype 'r settlement = Resolved 'r | Rejected StylintError

text \<open>What a request handler returns: a plain value, or a promise with what it settles to.\<close>

datatype 'r handlerResult = Value 'r | Thenable "StylintError + 'r"

text \<open>
  The queue object together with what its handlers act on. \<open>timer\<close> says that a
  \<^verbatim>\<open>setImmediate\<close> callback is pending; \<open>cancellationRequested\<close> reads a token;
  \<open>settled\<close> lists the \<^verbatim>\<open>resolve\<close>/\<^verbatim>\<open>reject\<close> calls and \<open>invoked\<close> the handler calls the
  queue made; \<open>world\<close> is the state of the server.
\<close>

record ('p, 'r, 'w) mq =
  queue :: "'p queued list"
  timer :: bool
  cancellationRequested :: "nat \<Rightarrow> bool"
  settled :: "(nat \<times> 'r settlement) list"
  invoked :: "(string \<times> 'p) list"
  world :: 'w

type_synonym ('p, 'w) versionProvider = "'w \<Rightarrow> 'p \<Rightarrow> StylintError + int option"

type_synonym ('p, 'r, 'w) requestHandler =
  "'p \<Rightarrow> nat \<Rightarrow> ('p, 'r, 'w) mq \<Rightarrow> (StylintError + 'r handlerResult) \<times> ('p, 'r, 'w) mq"

type_synonym ('p, 'r, 'w) notificationHandler =
  "'p \<Rightarrow> ('p, 'r, 'w) mq \<Rightarrow> (StylintError + unit) \<times> ('p, 'r, 'w) mq"

record ('p, 'r, 'w) registry =
  requestHandlers :: "string \<rightharpoonup> ('p, 'r, 'w) requestHandler \<times> ('p, 'w) versionProvider option"
  notificationHandlers :: "string \<rightharpoonup> ('p, 'r, 'w) notificationHandler \<times> ('p, 'w) versionProvider option"

definition requestCancelled :: StylintError where
  "requestCancelled = \<lparr> err_message = Some ''Request got cancelled'', messageTemplate = None,
                         err_stack = None \<rparr>"

definition trigger :: "('p, 'r, 'w) mq \<Rightarrow> ('p, 'r, 'w) mq" where
  "trigger s = (if timer s \<or> length (queue s) = 0 then s else s\<lparr> timer := True \<rparr>)"

definition settle :: "nat \<Rightarrow> 'r settlement \<Rightarrow> ('p, 'r, 'w) mq \<Rightarrow> ('p, 'r, 'w) mq" where
  "settle token r s = s\<lparr> settled := settled s @ [(token, r)] \<rparr>"

text \<open>
  The version gate: a provider is registered, the message has a recorded version, and the
  provider now gives something else. The provider is only called in that order.
\<close>

definition isStale ::
  "('p, 'w) versionProvider option \<Rightarrow> int option \<Rightarrow> 'w \<Rightarrow> 'p \<Rightarrow> StylintError + bool" where
  "isStale provider recorded w params =
     (case provider of
        None \<Rightarrow> Inr False
      | Some f \<Rightarrow>
          (case recorded of
             None \<Rightarrow> Inr False
           | Some v \<Rightarrow>
               (case f w params of
                  Inl e \<Rightarrow> Inl e
                | Inr current \<Rightarrow> Inr (Some v \<noteq> current))))"

text \<open>
  \<^verbatim>\<open>processQueue\<close>. \<open>Inl\<close> is an exception leaving the function. A promise returned by a
  handler settles after \<^verbatim>\<open>processQueue\<close> has returned; its settlement is recorded at once.
\<close>

definition processQueue ::
  "('p, 'r, 'w) registry \<Rightarrow> ('p, 'r, 'w) mq \<Rightarrow> (StylintError + unit) \<times> ('p, 'r, 'w) mq" where
  "processQueue reg s0 =
     (case queue s0 of
        [] \<Rightarrow> (Inr (), s0)
      | msg # rest \<Rightarrow>
          (let s = s0\<lparr> queue := rest \<rparr> in
           case msg of
             Request method params recorded token \<Rightarrow>
               if cancellationRequested s token
               then (Inr (), settle token (Rejected requestCancelled) s)
               else
                 (case requestHandlers reg method of
                    None \<Rightarrow> (Inl typeError, s)
                  | Some (handler, provider) \<Rightarrow>
                      (case isStale provider recorded (world s) params of
                         Inl e \<Rightarrow> (Inl e, s)
                       | Inr True \<Rightarrow> (Inr (), settle token (Rejected requestCancelled) s)
                       | Inr False \<Rightarrow>
                           (case handler params token (s\<lparr> invoked := invoked s @ [(method, params)] \<rparr>) of
                              (Inl e, s1) \<Rightarrow> (Inl e, s1)
                            | (Inr (Value v), s1) \<Rightarrow> (Inr (), trigger (settle token (Resolved v) s1))
                            | (Inr (Thenable (Inr v)), s1) \<Rightarrow>
                                (Inr (), settle token (Resolved v) (trigger s1))
                            | (Inr (Thenable (Inl e)), s1) \<Rightarrow>
                                (Inr (), settle token (Rejected e) (trigger s1)))))
           | Notification method params recorded \<Rightarrow>
               (case notificationHandlers reg method of
                  None \<Rightarrow> (Inl typeError, s)
                | Some (handler, provider) \<Rightarrow>
                    (case isStale provider recorded (world s) params of
                       Inl e \<Rightarrow> (Inl e, s)
                     | Inr True \<Rightarrow> (Inr (), s)
                     | Inr False \<Rightarrow>
                         (case handler params (s\<lparr> invoked := invoked s @ [(method, params)] \<rparr>) of
                            (Inl e, s1) \<Rightarrow> (Inl e, s1)
                          | (Inr _, s1) \<Rightarrow> (Inr (), trigger s1))))))"

text \<open>The \<^verbatim>\<open>setImmediate\<close> callback armed by \<^verbatim>\<open>trigger\<close>.\<close>

definition timerCallback ::
  "('p, 'r, 'w) registry \<Rightarrow> ('p, 'r, 'w) mq \<Rightarrow> (StylintError + unit) \<times> ('p, 'r, 'w) mq" where
  "timerCallback reg s = processQueue reg (s\<lparr> timer := False \<rparr>)"

text \<open>
  The event loop with no further message arriving: at most \<open>n\<close> pending callbacks run,
  one after the other. An exception that leaves a callback goes to the process's
  \<^verbatim>\<open>uncaughtException\<close> listener, which logs it, and the loop goes on.
\<close>

fun runTimers :: "('p, 'r, 'w) registry \<Rightarrow> nat \<Rightarrow> ('p, 'r, 'w) mq \<Rightarrow> ('p, 'r, 'w) mq" where
  "runTimers reg 0 s = s"
| "runTimers reg (Suc n) s =
     (if timer s then runTimers reg n (snd (timerCallback reg s)) else s)"

text \<open>
  Enqueueing: the callbacks that \<^verbatim>\<open>registerRequest\<close> and \<^verbatim>\<open>registerNotification\<close> install
  on the connection, and \<^verbatim>\<open>addNotificationMessage\<close>. A provider that throws leaves the
  queue as it is.
\<close>

definition recordVersion ::
  "('p, 'w) versionProvider option \<Rightarrow> 'w \<Rightarrow> 'p \<Rightarrow> StylintError + int option" where
  "recordVersion provider w params =
     (case provider of None \<Rightarrow> Inr None | Some f \<Rightarrow> f w params)"

definition onRequest ::
  "('p, 'w) versionProvider option \<Rightarrow> string \<Rightarrow> 'p \<Rightarrow> nat \<Rightarrow> ('p, 'r, 'w) mq \<Rightarrow>
   ('p, 'r, 'w) mq" where
  "onRequest provider method params token s =
     (case recordVersion provider (world s) params of
        Inl e \<Rightarrow> s
      | Inr v \<Rightarrow> trigger (s\<lparr> queue := queue s @ [Request method params v token] \<rparr>))"

definition onNotification ::
  "('p, 'w) versionProvider option \<Rightarrow> string \<Rightarrow> 'p \<Rightarrow> ('p, 'r, 'w) mq \<Rightarrow> ('p, 'r, 'w) mq" where
  "onNotification provider method params s =
     (case recordVersion provider (world s) params of
        Inl e \<Rightarrow> s
      | Inr v \<Rightarrow> trigger (s\<lparr> queue := queue s @ [Notification method params v] \<rparr>))"

definition addNotificationMessage ::
  "string \<Rightarrow> 'p \<Rightarrow> int \<Rightarrow> ('p, 'r, 'w) mq \<Rightarrow> ('p, 'r, 'w) mq" where
  "addNotificationMessage method params v s =
     trigger (s\<lparr> queue := queue s @ [Notification method params (Some v)] \<rparr>)"

section \<open>The server's messages\<close>

text \<open>
  The params of the messages the server queues. A \<^verbatim>\<open>stylint/validate\<close> notification
  carries the document object, that is its address in the heap.
\<close>

datatype params =
    DocumentParams nat
  | WatchedFilesParams "string list"
  | CodeActionParams string "Diagnostic list"
  | ExecuteCommandParams string "VersionedTextDocumentIdentifier list"
  | NoParams

definition validateMethod :: string where
  "validateMethod = ''stylint/validate''"

text \<open>
  The version provider given to \<^verbatim>\<open>messageQueue.onNotification(ValidateNotification.type, ...)\<close>:
  \<^verbatim>\<open>document.version\<close>, read from the object when the message is dequeued.
\<close>

definition validateVersion :: "(params, server) versionProvider" where
  "validateVersion w p =
     (case p of DocumentParams r \<Rightarrow> Inr (Some (version (heap w r))) | _ \<Rightarrow> Inl typeError)"

definition validateMany :: "nat list \<Rightarrow> (params, 'r, server) mq \<Rightarrow> (params, 'r, server) mq" where
  "validateMany docs s =
     fold (\<lambda>r st. addNotificationMessage validateMethod (DocumentParams r)
                    (version (heap (world st) r)) st) docs s"

section \<open>Watched files (server.ts: the DidChangeWatchedFilesNotification handler)\<close>

text \<open>The body of \<^verbatim>\<open>params.changes.forEach\<close>, for \<^verbatim>\<open>change.uri\<close>.\<close>

definition watchedChange :: "platform \<Rightarrow> string \<Rightarrow> server \<Rightarrow> server" where
  "watchedChange pf changeUri w =
     (case getFilePath_uri pf changeUri of
        None \<Rightarrow> w
      | Some fsPath \<Rightarrow>
          if fsPath = [] \<or> isUNC pf fsPath then w
          else
            let dirname = path_dirname pf fsPath in
            if dirname \<noteq> [] then
              (case configErrorReported w fsPath of
                 Some (Some cli) \<Rightarrow>
                   if libraryValidates pf cli (path_join pf dirname ''*.styl'')
                   then w\<lparr> configErrorReported := (configErrorReported w)(fsPath := None) \<rparr>
                   else w
               | _ \<Rightarrow> w)
            else w)"

definition watchedFilesHandler ::
  "platform \<Rightarrow> string list \<Rightarrow> (params, 'r, server) mq \<Rightarrow> (params, 'r, server) mq" where
  "watchedFilesHandler pf changes s =
     (let w1 = (world s)\<lparr> noConfigReported := Map.empty, missingModuleReported := Map.empty \<rparr>;
          w2 = fold (watchedChange pf) changes w1
      in validateMany (documents_all w2) (s\<lparr> world := w2 \<rparr>))"

section \<open>The handlers as the queue sees them\<close>

datatype response = CodeActionResponse "CodeAction list" | CommandResponse commandResult

definition codeActionMethod :: string where
  "codeActionMethod = ''textDocument/codeAction''"

definition executeCommandMethod :: string where
  "executeCommandMethod = ''workspace/executeCommand''"

definition watchedFilesMethod :: string where
  "watchedFilesMethod = ''workspace/didChangeWatchedFiles''"

text \<open>
  The handler registered for \<^verbatim>\<open>stylint/validate\<close>:
  \<^verbatim>\<open>(document) => { validateSingle(document, true); }\<close>. The settings a document resolves
  to and the outcome of linting it are given by \<open>settingsOf\<close> and \<open>linter\<close>; what
  \<^verbatim>\<open>validateSingle\<close> does after the handler has returned is done at once.
\<close>

definition validateHandler ::
  "platform \<Rightarrow> (TextDocument \<Rightarrow> TextDocumentSettings) \<Rightarrow> (TextDocument \<Rightarrow> linterOutcome) \<Rightarrow>
   (params, response, server) notificationHandler" where
  "validateHandler pf settingsOf linter p s =
     (case p of
        DocumentParams r \<Rightarrow>
          (let document = heap (world s) r in
           (Inr (), s\<lparr> world := validateSingle pf document True (settingsOf document)
                                     (linter document) (world s) \<rparr>))
      | _ \<Rightarrow> (Inl typeError, s))"

definition watchedFilesNotificationHandler ::
  "platform \<Rightarrow> (params, response, server) notificationHandler" where
  "watchedFilesNotificationHandler pf p s =
     (case p of
        WatchedFilesParams changes \<Rightarrow> (Inr (), watchedFilesHandler pf changes s)
      | _ \<Rightarrow> (Inl typeError, s))"

definition codeActionRequestHandler :: "(params, response, server) requestHandler" where
  "codeActionRequestHandler p token s =
     (case p of
        CodeActionParams u diagnostics \<Rightarrow>
          (case codeActionHandler u diagnostics (world s) of
             (Inl e, w) \<Rightarrow> (Inl e, s\<lparr> world := w \<rparr>)
           | (Inr actions, w) \<Rightarrow> (Inr (Value (CodeActionResponse actions)), s\<lparr> world := w \<rparr>))
      | _ \<Rightarrow> (Inl typeError, s))"

definition codeActionProvider :: "(params, server) versionProvider" where
  "codeActionProvider w p =
     (case p of CodeActionParams u diagnostics \<Rightarrow> Inr (codeActionVersion w u) | _ \<Rightarrow> Inl typeError)"

text \<open>
  The execute-command handler returns \<^verbatim>\<open>{}\<close> at once when there is nothing to apply,
  and otherwise the promise of \<^verbatim>\<open>applyEdit\<close>, whose callbacks never reject.
\<close>

definition executeCommandRequestHandler ::
  "applyResponse \<Rightarrow> (params, response, server) requestHandler" where
  "executeCommandRequestHandler answer p token s =
     (case p of
        ExecuteCommandParams command arguments \<Rightarrow>
          (case executeCommandHandler answer command arguments (world s) of
             (Inl e, w) \<Rightarrow> (Inl e, s\<lparr> world := w \<rparr>)
           | (Inr r, w) \<Rightarrow>
               (Inr (if outbox w = outbox (world s) then Value (CommandResponse r)
                     else Thenable (Inr (CommandResponse r))),
                s\<lparr> world := w \<rparr>))
      | _ \<Rightarrow> (Inl typeError, s))"

definition executeCommandProvider :: "(params, server) versionProvider" where
  "executeCommandProvider w p =
     (case p of
        ExecuteCommandParams command arguments \<Rightarrow> executeCommandVersion command arguments
      | _ \<Rightarrow> Inl typeError)"

text \<open>The handlers the server registers on its queue (those modelled here).\<close>

definition serverRegistry ::
  "platform \<Rightarrow> (TextDocument \<Rightarrow> TextDocumentSettings) \<Rightarrow> (TextDocument \<Rightarrow> linterOutcome) \<Rightarrow>
   applyResponse \<Rightarrow> (params, response, server) registry" where
  "serverRegistry pf settingsOf linter answer =
     \<lparr> requestHandlers =
         [codeActionMethod \<mapsto> (codeActionRequestHandler, Some codeActionProvider),
          executeCommandMethod \<mapsto>
            (executeCommandRequestHandler answer, Some executeCommandProvider)],
       notificationHandlers =
         [validateMethod \<mapsto> (validateHandler pf settingsOf linter, Some validateVersion),
          watchedFilesMethod \<mapsto> (watchedFilesNotificationHandler pf, None)] \<rparr>"

section \<open>Which config-error records a change removes\<close>

text \<open>
  The condition under which the watched-files handler deletes the key \<open>k\<close> of
  \<^verbatim>\<open>configErrorReported\<close> on account of the change \<open>changeUri\<close>: \<open>k\<close> is the file path
  of the change, it is not a UNC path, and the library recorded for it validates the
  directory's \<^verbatim>\<open>*.styl\<close> files without throwing.
\<close>

definition clearedBy ::
  "platform \<Rightarrow> (string \<rightharpoonup> StylintModule option) \<Rightarrow> string \<Rightarrow> string \<Rightarrow> bool" where
  "clearedBy pf reported changeUri k =
     (getFilePath_uri pf changeUri = Some k \<and> k \<noteq> [] \<and> \<not> isUNC pf k \<and>
      path_dirname pf k \<noteq> [] \<and>
      (case reported k of
         Some (Some cli) \<Rightarrow> libraryValidates pf cli (path_join pf (path_dirname pf k) ''*.styl'')
       | _ \<Rightarrow> False))"

section \<open>The same-rule subset\<close>

text \<open>
  The subset the specification describes for the "fix all same-rule" action: the entries
  of \<open>getAllSorted\<close> with the given rule id, greedily overlap-filtered on their own.
\<close>

definition sameRuleFixes :: "EditMap \<Rightarrow> string \<Rightarrow> AutoFix list" where
  "sameRuleFixes edits rid = overlapFreeOf (filter (\<lambda>e. ruleId e = rid) (getAllSorted edits))"

definition sameAction :: "string \<Rightarrow> CodeAction" where
  "sameAction rid =
     \<lparr> title = sameTitle (Some rid), ca_command = applySameFixes, ca_kind = quickFix \<rparr>"

definition allAction :: CodeAction where
  "allAction = \<lparr> title = allTitle, ca_command = applyAllFixes, ca_kind = quickFix \<rparr>"

definition singleAction :: "AutoFix \<Rightarrow> CodeAction" where
  "singleAction editInfo =
     \<lparr> title = label editInfo, ca_command = applySingleFix, ca_kind = quickFix \<rparr>"

text \<open>\<^verbatim>\<open>commands.get(id)\<close> on the server's \<^verbatim>\<open>commands\<close>, once assigned.\<close>

definition commands_get :: "server \<Rightarrow> string \<Rightarrow> WorkspaceChange option" where
  "commands_get s c = (case commands s of None \<Rightarrow> None | Some cmds \<Rightarrow> cmds c)"

section \<open>Ordering of entries by start offset\<close>

definition startLe :: "AutoFix \<Rightarrow> AutoFix \<Rightarrow> bool" where
  "startLe a b = (fst (range_edit (edit a)) \<le> fst (range_edit (edit b)))"

section \<open>Example data\<close>

definition mkFix :: "string \<Rightarrow> int \<Rightarrow> int \<Rightarrow> AutoFix" where
  "mkFix r a b =
     \<lparr> label = ''Fix this '' @ r @ '' problem'', documentVersion = 6, ruleId = r,
       edit = \<lparr> range_edit = (a, b), text_edit = [] \<rparr> \<rparr>"

definition examplePlatform :: platform where
  "examplePlatform =
     \<lparr> win32 = False,
       uriScheme = (\<lambda>u. if take 7 u = ''file://'' then ''file'' else ''untitled''),
       uriFsPath = drop 7,
       uriFile = (\<lambda>f. ''file://'' @ f),
       path_dirname = (\<lambda>f. rev (drop 1 (dropWhile (\<lambda>c. c \<noteq> CHR ''/'') (rev f)))),
       path_join = (\<lambda>a b. a @ ''/'' @ b),
       chdirTarget = (\<lambda>c d. if d = ''/home'' \<or> d = ''/ws'' then Some d else None),
       regexExec =
         (\<lambda>r m. if r = CannotReadConfigFile \<and> take 25 m = ''Cannot read config file: ''
                then Some [m, ''/ws/.stylintrc'', ''Unexpected token''] else None),
       libraryValidates = (\<lambda>l f. True) \<rparr>"

definition exampleUri :: string where
  "exampleUri = ''file:///ws/a.styl''"

definition exampleDocument :: "int \<Rightarrow> TextDocument" where
  "exampleDocument v =
     \<lparr> uri = exampleUri, version = v,
       positionAt = (\<lambda>off. \<lparr> pos_line = 0, pos_character = off \<rparr>) \<rparr>"

definition exampleSettings :: TextDocumentSettings where
  "exampleSettings =
     \<lparr> validate_s = True, autoFix = True, autoFixOnSave = False, stylintrcPath = None,
       stylintJsonReporterPath = ''/ext/reporter.js'', run = onType,
       workspaceFolder = Some \<lparr> wf_uri = ''file:///ws'', wf_name = ''ws'' \<rparr>,
       workingDirectory = None, library = Some 0 \<rparr>"

text \<open>A server with one open document at the given version and nothing recorded.\<close>

definition exampleServer :: "int \<Rightarrow> server" where
  "exampleServer v =
     \<lparr> cwd = ''/home'', documents = [(exampleUri, 0)], heap = (\<lambda>r. exampleDocument v),
       codeActions = Map.empty, commands = None, noConfigReported = Map.empty,
       configErrorReported = Map.empty, missingModuleReported = Map.empty,
       published = Map.empty, outbox = [] \<rparr>"

definition exampleProblem :: "string \<Rightarrow> int \<Rightarrow> int \<Rightarrow> int \<Rightarrow> StylintProblem" where
  "exampleProblem r col a b =
     \<lparr> line = 1, column = col, severity = ''Warning'', rule = Some r,
       message = ''unexpected'', endLine = None, endColumn = None,
       fix_p = Some \<lparr> range_edit = (a, b), text_edit = [] \<rparr> \<rparr>"

definition exampleReport :: "StylintProblem list \<Rightarrow> linterOutcome" where
  "exampleReport ps =
     Inr (Some [\<lparr> filePath = ''/ws/a.styl'', errorCount = 0, warningCount = int (length ps),
                  messages = Some (map Some ps) \<rparr>])"

definition exampleError :: StylintError where
  "exampleError = \<lparr> err_message = Some ''spawn failed'', messageTemplate = None,
                     err_stack = None \<rparr>"

text \<open>The same server with fixes recorded and diagnostics published for the document.\<close>

definition exampleStored :: "int \<Rightarrow> server" where
  "exampleStored v =
     (exampleServer v)
       \<lparr> codeActions := [exampleUri \<mapsto> [(''k1'', mkFix ''R'' 3 8), (''k2'', mkFix ''S'' 5 9),
                                        (''k3'', mkFix ''R'' 0 5)]],
         published := [exampleUri \<mapsto> [makeDiagnostic (exampleProblem ''R'' 1 0 5)]] \<rparr>"

definition exampleRegistry :: "(params, response, server) registry" where
  "exampleRegistry =
     serverRegistry examplePlatform (\<lambda>d. exampleSettings)
       (\<lambda>d. exampleReport [exampleProblem ''R'' 1 0 5]) (Applied True)"

text \<open>An idle queue around a server with one open document.\<close>

definition exampleQueue :: "int \<Rightarrow> (params, response, server) mq" where
  "exampleQueue v =
     \<lparr> queue = [], timer = False, cancellationRequested = (\<lambda>t. False), settled = [],
       invoked = [], world = exampleServer v \<rparr>"

text \<open>
  A code-action request (token 1) arrives, then the document is queued for validation,
  then the client cancels the request; no timer callback has run yet.
\<close>

definition exampleCancelled :: "(params, response, server) mq" where
  "exampleCancelled =
     (addNotificationMessage validateMethod (DocumentParams 0) 6
        (onRequest (Some codeActionProvider) codeActionMethod (CodeActionParams exampleUri []) 1
           (exampleQueue 6)))
       \<lparr> cancellationRequested := (\<lambda>t. t = 1) \<rparr>"

text \<open>
  The document is queued for validation at version 1 and a code-action request (token 2)
  is recorded at version 1; the document then changes to version 2 and is queued again.
\<close>

definition exampleEdited :: "(params, response, server) mq" where
  "exampleEdited =
     addNotificationMessage validateMethod (DocumentParams 0) 2
       ((onRequest (Some codeActionProvider) codeActionMethod (CodeActionParams exampleUri []) 2
           (addNotificationMessage validateMethod (DocumentParams 0) 1 (exampleQueue 1)))
          \<lparr> world := exampleServer 2 \<rparr>)"

text \<open>
  A validation of the open document has failed on an unreadable config file, which
  \<open>tryHandleConfigError\<close> recorded.
\<close>

definition exampleConfigError :: StylintError where
  "exampleConfigError =
     \<lparr> err_message = Some ''Cannot read config file: /ws/.stylintrc'', messageTemplate = None,
       err_stack = None \<rparr>"

definition exampleReported :: "(params, response, server) mq" where
  "exampleReported =
     (exampleQueue 6)
       \<lparr> world := snd (tryHandleConfigError examplePlatform exampleConfigError
                          (exampleDocument 6) (Some 0) (exampleServer 6)) \<rparr>"

text \<open>The open document after a validation that reported the given problems.\<close>

definition exampleValidated :: "StylintProblem list \<Rightarrow> server" where
  "exampleValidated ps =
     snd (validate examplePlatform (exampleDocument 6) exampleSettings True (exampleReport ps)
            (exampleServer 6))"

text \<open>Three fixable problems of rule R and one of rule S, none overlapping another.\<close>

definition exampleFour :: "StylintProblem list" where
  "exampleFour =
     [exampleProblem ''R'' 1 0 2, exampleProblem ''R'' 5 4 6, exampleProblem ''R'' 13 12 14,
      exampleProblem ''S'' 9 8 10]"

definition exampleFourFixes :: EditMap where
  "exampleFourFixes =
     [(''[0,0,0,0]-R'', mkFix ''R'' 0 2), (''[0,4,0,4]-R'', mkFix ''R'' 4 6),
      (''[0,12,0,12]-R'', mkFix ''R'' 12 14), (''[0,8,0,8]-S'', mkFix ''S'' 8 10)]"

definition exampleTies :: EditMap where
  "exampleTies = [(''k1'', mkFix ''R'' 5 7), (''k2'', mkFix ''R'' 5 0), (''k3'', mkFix ''S'' 2 3)]"

definition exampleOverlap :: EditMap where
  "exampleOverlap = [(''k1'', mkFix ''R'' 3 8), (''k2'', mkFix ''S'' 5 9), (''k3'', mkFix ''R'' 0 5)]"

section \<open>Sorting lemmas\<close>

lemma mset_insertBy: "mset (insertBy c x ys) = add_mset x (mset ys)"
  by (induction ys) simp_all

lemma mset_sortBy: "mset (sortBy c xs) = mset xs"
  unfolding sortBy_def by (induction xs) (simp_all add: mset_insertBy)

lemma set_insertBy: "set (insertBy c x ys) = insert x (set ys)"
  by (induction ys) auto

lemma compareFixes_order: "compareFixes a b \<le> 0 \<longleftrightarrow> sortedAllOrder a b"
  by (auto simp: compareFixes_def sortedAllOrder_def Let_def)

lemma sortedAllOrder_total: "sortedAllOrder a b \<or> sortedAllOrder b a"
  by (auto simp: sortedAllOrder_def)

lemma sortedAllOrder_trans:
  "sortedAllOrder a b \<Longrightarrow> sortedAllOrder b c \<Longrightarrow> sortedAllOrder a c"
  by (auto simp: sortedAllOrder_def)

lemma sorted_insertBy:
  "sorted_wrt sortedAllOrder ys \<Longrightarrow> sorted_wrt sortedAllOrder (insertBy compareFixes x ys)"
proof (induction ys)
  case Nil
  then show ?case by simp
next
  case (Cons y ys)
  show ?case
  proof (cases "compareFixes x y \<le> 0")
    case True
    then have xy: "sortedAllOrder x y" by (simp add: compareFixes_order)
    with Cons.prems have "\<forall>z\<in>set ys. sortedAllOrder x z"
      by (auto intro: sortedAllOrder_trans)
    with True xy Cons.prems show ?thesis by simp
  next
    case False
    then have "\<not> sortedAllOrder x y" by (simp add: compareFixes_order)
    then have yx: "sortedAllOrder y x" using sortedAllOrder_total by blast
    with False Cons show ?thesis by (auto simp: set_insertBy)
  qed
qed

lemma sorted_sortBy: "sorted_wrt sortedAllOrder (sortBy compareFixes xs)"
  unfolding sortBy_def by (induction xs) (simp_all add: sorted_insertBy)

section \<open>The greedy scan of getOverlapFree\<close>

lemma getLastEdit_simps [simp]:
  "getLastEdit [] = None" "getLastEdit (xs @ [x]) = Some x"
  by (simp_all add: getLastEdit_def)

lemma getLastEdit_last: "r \<noteq> [] \<Longrightarrow> getLastEdit r = Some (last r)"
  by (simp add: getLastEdit_def last_conv_nth)

lemma overlapFreeLoop_snoc:
  "r \<noteq> [] \<Longrightarrow> last r = l \<Longrightarrow>
   overlapFreeLoop l r xs \<noteq> [] \<and>
   overlapFreeLoop l r (xs @ [x]) =
     (if \<not> overlaps (Some (last (overlapFreeLoop l r xs))) x
      then overlapFreeLoop l r xs @ [x] else overlapFreeLoop l r xs)"
  by (induction xs arbitrary: l r) auto

lemma overlapFreeOf_Nil [simp]: "overlapFreeOf [] = []"
  by (simp add: overlapFreeOf_def)

lemma overlapFreeOf_Cons: "overlapFreeOf (f # rest) = overlapFreeLoop f [f] rest"
  by (cases rest) (simp_all add: overlapFreeOf_def)

lemma overlapFreeOf_snoc:
  "overlapFreeOf (xs @ [x]) =
     (if \<not> overlaps (getLastEdit (overlapFreeOf xs)) x
      then overlapFreeOf xs @ [x] else overlapFreeOf xs)"
proof (cases xs)
  case Nil
  then show ?thesis by (simp add: overlapFreeOf_Cons)
next
  case (Cons f rest)
  have ne: "overlapFreeLoop f [f] rest \<noteq> []"
    using overlapFreeLoop_snoc [of "[f]" f rest x] by simp
  show ?thesis
    using overlapFreeLoop_snoc [of "[f]" f rest x] ne
    by (simp add: Cons overlapFreeOf_Cons getLastEdit_last)
qed

lemma overlapFreeOf_subseq: "subseq (overlapFreeOf xs) xs"
proof (induction xs rule: rev_induct)
  case Nil
  then show ?case by simp
next
  case (snoc x xs)
  then show ?case
    by (auto simp: overlapFreeOf_snoc intro: subseq_rev_drop_many list_emb_append2[where ys="xs" and zs="[x]"] )
qed

lemma overlapFreeOf_prefix: "prefix (overlapFreeOf xs) (overlapFreeOf (xs @ ys))"
proof (induction ys rule: rev_induct)
  case Nil
  then show ?case by simp
next
  case (snoc y ys)
  have "prefix (overlapFreeOf (xs @ ys)) (overlapFreeOf ((xs @ ys) @ [y]))"
    by (simp add: overlapFreeOf_snoc del: append_assoc)
  with snoc show ?case by (metis append_assoc prefix_order.trans)
qed

lemma overlapFreeOf_set: "set (overlapFreeOf xs) \<subseteq> set xs"
  using overlapFreeOf_subseq [of xs] by (auto dest: list_emb_set)

lemma overlapFreeOf_pairwise:
  "sorted_wrt startLe xs \<Longrightarrow> sorted_wrt (\<lambda>a b. \<not> overlaps (Some a) b) (overlapFreeOf xs)"
proof (induction xs rule: rev_induct)
  case Nil
  then show ?case by simp
next
  case (snoc x xs)
  let ?r = "overlapFreeOf xs"
  from snoc.prems have sx: "sorted_wrt startLe xs" and le: "\<forall>y\<in>set xs. startLe y x"
    by (simp_all add: sorted_wrt_append)
  from snoc.IH sx have ih: "sorted_wrt (\<lambda>a b. \<not> overlaps (Some a) b) ?r" by simp
  show ?case
  proof (cases "overlaps (getLastEdit ?r) x")
    case True
    then show ?thesis using ih by (simp add: overlapFreeOf_snoc)
  next
    case False
    have "\<forall>y\<in>set ?r. \<not> overlaps (Some y) x"
    proof
      fix y assume y: "y \<in> set ?r"
      then have ne: "?r \<noteq> []" by auto
      then have r: "?r = butlast ?r @ [last ?r]" by simp
      from False ne have lastx: "\<not> overlaps (Some (last ?r)) x"
        by (simp add: getLastEdit_last)
      have "last ?r \<in> set xs" using ne overlapFreeOf_set last_in_set by blast
      with le have l2: "startLe (last ?r) x" by simp
      show "\<not> overlaps (Some y) x"
      proof (cases "y \<in> set (butlast ?r)")
        case True
        from ih r have "\<forall>z\<in>set (butlast ?r). \<not> overlaps (Some z) (last ?r)"
          by (metis sorted_wrt_append list.set_intros(1))
        with True have "\<not> overlaps (Some y) (last ?r)" by simp
        with l2 lastx show ?thesis by (simp add: startLe_def)
      next
        case False
        with y r have "y = last ?r"
          by (metis Un_iff empty_iff insert_iff list.set(1) list.simps(15) set_append)
        with lastx show ?thesis by simp
      qed
    qed
    with False ih show ?thesis by (simp add: overlapFreeOf_snoc sorted_wrt_append)
  qed
qed

lemma overlapFreeOf_dropped:
  "x \<in> set xs \<Longrightarrow> x \<notin> set (overlapFreeOf xs) \<Longrightarrow> \<exists>y\<in>set (overlapFreeOf xs). overlaps (Some y) x"
proof (induction xs rule: rev_induct)
  case Nil
  then show ?case by simp
next
  case (snoc z xs)
  let ?r = "overlapFreeOf xs"
  show ?case
  proof (cases "overlaps (getLastEdit ?r) z")
    case True
    then have ne: "?r \<noteq> []" by (auto simp: getLastEdit_def)
    with True have "overlaps (Some (last ?r)) z" by (simp add: getLastEdit_last)
    with ne have zz: "\<exists>y\<in>set ?r. overlaps (Some y) z" using last_in_set by blast
    from True have eq: "overlapFreeOf (xs @ [z]) = ?r" by (simp add: overlapFreeOf_snoc)
    show ?thesis
    proof (cases "x = z")
      case True
      with zz eq show ?thesis by simp
    next
      case False
      with snoc eq show ?thesis by auto
    qed
  next
    case False
    then have eq: "overlapFreeOf (xs @ [z]) = ?r @ [z]" by (simp add: overlapFreeOf_snoc)
    with snoc show ?thesis by auto
  qed
qed

lemma sortedAllOrder_startLe: "sortedAllOrder a b \<Longrightarrow> startLe a b"
  by (auto simp: sortedAllOrder_def startLe_def)

lemma getAllSorted_startLe: "sorted_wrt startLe (getAllSorted edits)"
  unfolding getAllSorted_def
  using sorted_sortBy sorted_wrt_mono_rel[of _ sortedAllOrder startLe] sortedAllOrder_startLe by blast


section \<open>Fixes.getAllSorted\<close>

text \<open>
  C8. \<open>getAllSorted\<close> returns all stored entries (the same entries, each as often as it
  is stored), and any entry that comes before another in the result is related to it by
  the order of the specification: smaller start offset, or equal start offset and then
  either an end offset of 0 or, both ends being nonzero, an end offset that is not larger.
\<close>

theorem getAllSorted_sorted:
  "mset (getAllSorted edits) = mset (map snd edits) \<and>
   sorted_wrt sortedAllOrder (getAllSorted edits)"
  using sorted_sortBy [of "map snd edits"]
  by (simp add: getAllSorted_def mset_sortBy)

theorem getAllSorted_sorted_witness:
  "getAllSorted exampleTies = [mkFix ''S'' 2 3, mkFix ''R'' 5 0, mkFix ''R'' 5 7] \<and>
   sorted_wrt sortedAllOrder [mkFix ''S'' 2 3, mkFix ''R'' 5 0, mkFix ''R'' 5 7]"
proof -
  have e: "getAllSorted exampleTies = [mkFix ''S'' 2 3, mkFix ''R'' 5 0, mkFix ''R'' 5 7]"
    by (simp add: getAllSorted_def sortBy_def exampleTies_def compareFixes_def mkFix_def)
  from getAllSorted_sorted [of exampleTies]
  have "sorted_wrt sortedAllOrder (getAllSorted exampleTies)" by simp
  with e show ?thesis by simp
qed

section \<open>Fixes.getOverlapFree\<close>

text \<open>
  C2. The result of \<open>getOverlapFree\<close> is a subsequence of \<open>getAllSorted\<close>; an earlier
  entry of the result never overlaps a later one (its end offset is not greater than the
  later entry's start offset); every entry of \<open>getAllSorted\<close> missing from the result
  overlaps an entry of the result; and the selection is left-greedy: at each position
  \<open>k\<close> the entries accepted so far are a prefix of the final result, and the entry at
  \<open>k\<close> is either appended to them or dropped because one of them overlaps it.
\<close>

theorem getOverlapFree_greedy:
  "subseq (getOverlapFree edits) (getAllSorted edits) \<and>
   (\<forall>i j. i < j \<and> j < length (getOverlapFree edits) \<longrightarrow>
      \<not> overlaps (Some (getOverlapFree edits ! i)) (getOverlapFree edits ! j)) \<and>
   (\<forall>x \<in> set (getAllSorted edits). x \<notin> set (getOverlapFree edits) \<longrightarrow>
      (\<exists>y \<in> set (getOverlapFree edits). overlaps (Some y) x)) \<and>
   (\<forall>k < length (getAllSorted edits).
      prefix (overlapFreeOf (take k (getAllSorted edits))) (getOverlapFree edits) \<and>
      (overlapFreeOf (take (Suc k) (getAllSorted edits)) =
         overlapFreeOf (take k (getAllSorted edits)) @ [getAllSorted edits ! k] \<or>
       (overlapFreeOf (take (Suc k) (getAllSorted edits)) =
          overlapFreeOf (take k (getAllSorted edits)) \<and>
        (\<exists>y \<in> set (overlapFreeOf (take k (getAllSorted edits))).
           overlaps (Some y) (getAllSorted edits ! k)))))"
proof -
  let ?s = "getAllSorted edits"
  let ?r = "getOverlapFree edits"
  have r: "?r = overlapFreeOf ?s" by (simp add: getOverlapFree_def)
  have a: "subseq ?r ?s" unfolding r by (rule overlapFreeOf_subseq)
  have "sorted_wrt (\<lambda>a b. \<not> overlaps (Some a) b) ?r"
    unfolding r by (rule overlapFreeOf_pairwise [OF getAllSorted_startLe])
  then have b: "\<forall>i j. i < j \<and> j < length ?r \<longrightarrow> \<not> overlaps (Some (?r ! i)) (?r ! j)"
    by (simp add: sorted_wrt_iff_nth_less)
  have c: "\<forall>x \<in> set ?s. x \<notin> set ?r \<longrightarrow> (\<exists>y \<in> set ?r. overlaps (Some y) x)"
    unfolding r using overlapFreeOf_dropped by blast
  have d: "\<forall>k < length ?s.
      prefix (overlapFreeOf (take k ?s)) ?r \<and>
      (overlapFreeOf (take (Suc k) ?s) = overlapFreeOf (take k ?s) @ [?s ! k] \<or>
       (overlapFreeOf (take (Suc k) ?s) = overlapFreeOf (take k ?s) \<and>
        (\<exists>y \<in> set (overlapFreeOf (take k ?s)). overlaps (Some y) (?s ! k))))"
  proof (intro allI impI)
    fix k assume k: "k < length ?s"
    have p: "prefix (overlapFreeOf (take k ?s)) ?r"
      unfolding r using overlapFreeOf_prefix [of "take k ?s" "drop k ?s"] by simp
    have t: "take (Suc k) ?s = take k ?s @ [?s ! k]"
      using k by (simp add: take_Suc_conv_app_nth)
    show "prefix (overlapFreeOf (take k ?s)) ?r \<and>
      (overlapFreeOf (take (Suc k) ?s) = overlapFreeOf (take k ?s) @ [?s ! k] \<or>
       (overlapFreeOf (take (Suc k) ?s) = overlapFreeOf (take k ?s) \<and>
        (\<exists>y \<in> set (overlapFreeOf (take k ?s)). overlaps (Some y) (?s ! k))))"
    proof (cases "overlaps (getLastEdit (overlapFreeOf (take k ?s))) (?s ! k)")
      case True
      then have ne: "overlapFreeOf (take k ?s) \<noteq> []" by (auto simp: getLastEdit_def)
      with True have "overlaps (Some (last (overlapFreeOf (take k ?s)))) (?s ! k)"
        by (simp add: getLastEdit_last)
      with ne have "\<exists>y \<in> set (overlapFreeOf (take k ?s)). overlaps (Some y) (?s ! k)"
        using last_in_set by blast
      with True p show ?thesis unfolding t by (simp add: overlapFreeOf_snoc)
    next
      case False
      with p show ?thesis unfolding t by (simp add: overlapFreeOf_snoc)
    qed
  qed
  from a b c d show ?thesis by blast
qed

theorem getOverlapFree_greedy_witness:
  "getAllSorted exampleOverlap = [mkFix ''R'' 0 5, mkFix ''R'' 3 8, mkFix ''S'' 5 9] \<and>
   getOverlapFree exampleOverlap = [mkFix ''R'' 0 5, mkFix ''S'' 5 9] \<and>
   subseq [mkFix ''R'' 0 5, mkFix ''S'' 5 9] [mkFix ''R'' 0 5, mkFix ''R'' 3 8, mkFix ''S'' 5 9] \<and>
   \<not> overlaps (Some (mkFix ''R'' 0 5)) (mkFix ''S'' 5 9) \<and>
   overlaps (Some (mkFix ''R'' 0 5)) (mkFix ''R'' 3 8)"
proof -
  have e1: "getAllSorted exampleOverlap = [mkFix ''R'' 0 5, mkFix ''R'' 3 8, mkFix ''S'' 5 9]"
    by (simp add: getAllSorted_def sortBy_def exampleOverlap_def compareFixes_def mkFix_def)
  have e2: "getOverlapFree exampleOverlap = [mkFix ''R'' 0 5, mkFix ''S'' 5 9]"
    by (simp add: getOverlapFree_def e1 overlapFreeOf_def) (simp add: mkFix_def)
  from getOverlapFree_greedy [of exampleOverlap]
  have "subseq (getOverlapFree exampleOverlap) (getAllSorted exampleOverlap)" by blast
  with e1 e2 show ?thesis by (simp add: mkFix_def)
qed

section \<open>makeDiagnostic\<close>

text \<open>
  C4. \<open>makeDiagnostic\<close> starts the range at \<open>(max 0 (line - 1), max 0 (column - 1))\<close>;
  the end line is \<open>max 0 (endLine - 1)\<close> when \<open>endLine\<close> is present and the start line
  otherwise, and likewise the end character for \<open>endColumn\<close>, so that the end is
  \<open>(max 0 (endLine - 1), max 0 (endColumn - 1))\<close> when both are present and the start
  position when both are absent; the severity is Warning for \<open>Warning\<close> and Error for
  every other string; the message is the problem's message, followed by the rule id in
  parentheses when there is one; the code is the rule id and the source is \<open>stylint\<close>.
\<close>

theorem makeDiagnostic_fields:
  "range_start (diag_range (makeDiagnostic p)) =
     \<lparr> pos_line = max 0 (line p - 1), pos_character = max 0 (column p - 1) \<rparr> \<and>
   pos_line (range_end (diag_range (makeDiagnostic p))) =
     (case endLine p of Some l \<Rightarrow> max 0 (l - 1) | None \<Rightarrow> max 0 (line p - 1)) \<and>
   pos_character (range_end (diag_range (makeDiagnostic p))) =
     (case endColumn p of Some c \<Rightarrow> max 0 (c - 1) | None \<Rightarrow> max 0 (column p - 1)) \<and>
   (\<forall>l c. endLine p = Some l \<and> endColumn p = Some c \<longrightarrow>
      range_end (diag_range (makeDiagnostic p)) =
        \<lparr> pos_line = max 0 (l - 1), pos_character = max 0 (c - 1) \<rparr>) \<and>
   (endLine p = None \<and> endColumn p = None \<longrightarrow>
      range_end (diag_range (makeDiagnostic p)) = range_start (diag_range (makeDiagnostic p))) \<and>
   diag_severity (makeDiagnostic p) =
     (if severity p = ''Warning'' then SeverityWarning else SeverityError) \<and>
   diag_message (makeDiagnostic p) =
     (case rule p of Some r \<Rightarrow> message p @ '' ('' @ r @ '')'' | None \<Rightarrow> message p) \<and>
   diag_code (makeDiagnostic p) = rule p \<and>
   diag_source (makeDiagnostic p) = ''stylint''"
  by (simp add: makeDiagnostic_def convertSeverity_def Let_def split: option.splits)

theorem makeDiagnostic_fields_witness:
  "makeDiagnostic (exampleProblem ''colons'' 1 0 0) =
     \<lparr> diag_message = ''unexpected (colons)'', diag_severity = SeverityWarning,
       diag_source = ''stylint'',
       diag_range = \<lparr> range_start = \<lparr> pos_line = 0, pos_character = 0 \<rparr>,
                      range_end = \<lparr> pos_line = 0, pos_character = 0 \<rparr> \<rparr>,
       diag_code = Some ''colons'' \<rparr>"
proof -
  have "endLine (exampleProblem ''colons'' 1 0 0) = None \<and>
        endColumn (exampleProblem ''colons'' 1 0 0) = None"
    by (simp add: exampleProblem_def)
  with makeDiagnostic_fields [of "exampleProblem ''colons'' 1 0 0"]
  have "range_end (diag_range (makeDiagnostic (exampleProblem ''colons'' 1 0 0))) =
        range_start (diag_range (makeDiagnostic (exampleProblem ''colons'' 1 0 0)))"
    by blast
  then show ?thesis
    by (simp add: makeDiagnostic_def exampleProblem_def convertSeverity_def)
qed

section \<open>The stylint.applyAutoFix command\<close>

text \<open>
  C9. When the identifier's version is not the version of the open document with that
  uri (also when no such document is open), \<open>computeAllFixes\<close> gives no edits and the
  \<open>stylint.applyAutoFix\<close> command returns the empty result with the server unchanged: no
  edit is sent to the client. Whenever \<open>computeAllFixes\<close> does give edits, the versions
  agree and the edits are those of \<open>getOverlapFree\<close> on the stored fixes.
\<close>

theorem applyAutoFix_stale:
  "(map_option version (documents_get s (id_uri identifier)) \<noteq> Some (id_version identifier) \<longrightarrow>
      computeAllFixes identifier s = None \<and>
      executeCommandHandler response applyAutoFix (identifier # rest) s = (Inr EmptyObject, s)) \<and>
   (\<forall>edits. computeAllFixes identifier s = Some edits \<longrightarrow>
      (\<exists>textDocument stored.
         documents_get s (id_uri identifier) = Some textDocument \<and>
         version textDocument = id_version identifier \<and>
         codeActions s (id_uri identifier) = Some stored \<and>
         edits = map (createTextEdit textDocument) (getOverlapFree stored)))"
proof (intro conjI impI allI)
  assume m: "map_option version (documents_get s (id_uri identifier)) \<noteq> Some (id_version identifier)"
  then show c: "computeAllFixes identifier s = None"
    by (auto simp: computeAllFixes_def split: option.splits)
  then show "executeCommandHandler response applyAutoFix (identifier # rest) s = (Inr EmptyObject, s)"
    by (simp add: executeCommandHandler_def)
next
  fix edits assume "computeAllFixes identifier s = Some edits"
  then show "\<exists>textDocument stored.
         documents_get s (id_uri identifier) = Some textDocument \<and>
         version textDocument = id_version identifier \<and>
         codeActions s (id_uri identifier) = Some stored \<and>
         edits = map (createTextEdit textDocument) (getOverlapFree stored)"
    by (auto simp: computeAllFixes_def split: option.splits if_splits)
qed

theorem applyAutoFix_stale_witness:
  "map_option version
     (documents_get (exampleStored 6) (id_uri \<lparr> id_uri = exampleUri, id_version = 5 \<rparr>)) = Some 6 \<and>
   codeActions (exampleStored 6) exampleUri \<noteq> None \<and>
   executeCommandHandler (Applied True) applyAutoFix [\<lparr> id_uri = exampleUri, id_version = 5 \<rparr>]
     (exampleStored 6) = (Inr EmptyObject, exampleStored 6)"
proof -
  have v: "map_option version
     (documents_get (exampleStored 6) (id_uri \<lparr> id_uri = exampleUri, id_version = 5 \<rparr>)) = Some 6"
    by (simp add: documents_get_def exampleStored_def exampleServer_def exampleDocument_def)
  then have "map_option version
     (documents_get (exampleStored 6) (id_uri \<lparr> id_uri = exampleUri, id_version = 5 \<rparr>)) \<noteq>
     Some (id_version \<lparr> id_uri = exampleUri, id_version = 5 \<rparr>)"
    by (simp only: VersionedTextDocumentIdentifier.select_convs) simp
  with applyAutoFix_stale [of "exampleStored 6" "\<lparr> id_uri = exampleUri, id_version = 5 \<rparr>"
      "Applied True" "[]"]
  have "executeCommandHandler (Applied True) applyAutoFix [\<lparr> id_uri = exampleUri, id_version = 5 \<rparr>]
     (exampleStored 6) = (Inr EmptyObject, exampleStored 6)"
    by blast
  with v show ?thesis by (simp add: exampleStored_def)
qed

section \<open>The working directory around a validation\<close>

lemma validate_try_cases:
  "validate pf document settings publishDiagnostics outcome s =
     (case validate_try pf document settings publishDiagnostics outcome s of
        (r, s1) \<Rightarrow>
          if cwd s \<noteq> cwd s1 then
            (case chdir pf (cwd s) s1 of Inl e \<Rightarrow> (Inl e, s1) | Inr s2 \<Rightarrow> (r, s2))
          else (r, s1))"
  by (simp add: validate_def Let_def)

text \<open>
  C7. Provided the directory the process was in can be entered again (\<open>process.chdir\<close>
  back to it does not throw), the working directory after \<open>validate\<close> is the one before
  it, for every document, every settings, and every outcome of the linter, a report or
  a thrown error.
\<close>

theorem validate_restores_cwd:
  assumes "\<And>c. chdirTarget pf c (cwd s) = Some (cwd s)"
  shows "cwd (snd (validate pf document settings publishDiagnostics outcome s)) = cwd s"
proof -
  obtain r s1 where t: "validate_try pf document settings publishDiagnostics outcome s = (r, s1)"
    by (cases "validate_try pf document settings publishDiagnostics outcome s")
  have "chdir pf (cwd s) s1 = Inr (s1\<lparr> cwd := cwd s \<rparr>)"
    using assms by (simp add: chdir_def)
  then show ?thesis
    by (simp add: validate_try_cases t)
qed

theorem validate_restores_cwd_witness:
  "(\<forall>c. chdirTarget examplePlatform c (cwd (exampleServer 6)) = Some (cwd (exampleServer 6))) \<and>
   cwd (snd (validate_try examplePlatform (exampleDocument 6) exampleSettings True
               (Inl exampleError) (exampleServer 6))) = ''/ws'' \<and>
   fst (validate examplePlatform (exampleDocument 6) exampleSettings True
          (Inl exampleError) (exampleServer 6)) = Inl exampleError \<and>
   cwd (snd (validate examplePlatform (exampleDocument 6) exampleSettings True
               (Inl exampleError) (exampleServer 6))) = ''/home''"
proof -
  have h: "\<And>c. chdirTarget examplePlatform c (cwd (exampleServer 6)) = Some (cwd (exampleServer 6))"
    by (simp add: examplePlatform_def exampleServer_def)
  have t: "validate_try examplePlatform (exampleDocument 6) exampleSettings True
             (Inl exampleError) (exampleServer 6) =
           (Inl exampleError, (exampleServer 6)\<lparr> cwd := ''/ws'' \<rparr>)"
    by (simp add: validate_try_def validate_enter_def validate_chdir_def getFilePath_def
        getFileSystemPath_def chdir_def examplePlatform_def exampleDocument_def exampleUri_def
        exampleSettings_def exampleServer_def)
  have f: "fst (validate examplePlatform (exampleDocument 6) exampleSettings True
          (Inl exampleError) (exampleServer 6)) = Inl exampleError"
    by (simp add: validate_try_cases t) (simp add: chdir_def examplePlatform_def exampleServer_def)
  from validate_restores_cwd [OF h, of "exampleDocument 6" exampleSettings True "Inl exampleError"]
  have "cwd (snd (validate examplePlatform (exampleDocument 6) exampleSettings True
               (Inl exampleError) (exampleServer 6))) = ''/home''"
    by (simp add: exampleServer_def)
  with h t f show ?thesis by simp
qed

section \<open>The fix store around a validation\<close>

lemma chdir_fields: "chdir pf d s = Inr s' \<Longrightarrow> s' = s\<lparr> cwd := cwd s' \<rparr>"
  by (auto simp: chdir_def split: option.splits)

lemma validate_chdir_fields:
  "validate_chdir pf file settings s = Inr s' \<Longrightarrow> s' = s\<lparr> cwd := cwd s' \<rparr>"
  by (auto simp: validate_chdir_def dest: chdir_fields split: option.splits if_splits)

lemma validate_enter_reached:
  assumes "validate_enter pf document settings s = (None, s1)"
  shows "s1 = s\<lparr> cwd := cwd s1, codeActions := (codeActions s)(uri document := None) \<rparr>"
proof -
  from assms obtain s0 where c: "validate_chdir pf (getFilePath pf document) settings s = Inr s0"
    and s1: "s1 = s0\<lparr> codeActions := (codeActions s0)(uri document := None) \<rparr>"
    by (auto simp: validate_enter_def split: sum.splits option.splits)
  from validate_chdir_fields [OF c] have "s0 = s\<lparr> cwd := cwd s0 \<rparr>" .
  then have "codeActions s0 = codeActions s"
    "s0\<lparr> codeActions := x \<rparr> = s\<lparr> cwd := cwd s0, codeActions := x \<rparr>" for x
    by (metis server.select_convs server.surjective server.update_convs)+
  with s1 show ?thesis by simp
qed

lemma validate_linter_throws:
  assumes "validate_enter pf document settings s = (None, s1)"
  shows "isl (fst (validate pf document settings publishDiagnostics (Inl e) s)) \<and>
         codeActions (snd (validate pf document settings publishDiagnostics (Inl e) s)) (uri document) = None \<and>
         published (snd (validate pf document settings publishDiagnostics (Inl e) s)) = published s"
proof -
  have t: "validate_try pf document settings publishDiagnostics (Inl e) s = (Inl e, s1)"
    using assms by (simp add: validate_try_def)
  have c: "codeActions s1 (uri document) = None" and p: "published s1 = published s"
    using validate_enter_reached [OF assms]
    by (metis fun_upd_same server.select_convs(4) server.surjective server.update_convs(1,4),
        metis server.select_convs(9) server.surjective server.update_convs(1,4))
  show ?thesis
  proof (cases "chdir pf (cwd s) s1")
    case (Inl e')
    with c p show ?thesis by (simp add: validate_try_cases t)
  next
    case (Inr s2)
    from chdir_fields [OF Inr] have "s2 = s1\<lparr> cwd := cwd s2 \<rparr>" .
    then have "codeActions s2 = codeActions s1" "published s2 = published s1"
      by (metis server.select_convs server.surjective server.update_convs)+
    with Inr c p show ?thesis by (simp add: validate_try_cases t)
  qed
qed

lemma tryHandleNoConfig_keeps:
  "tryHandleNoConfig e d l s = (st, s') \<Longrightarrow>
   codeActions s' = codeActions s \<and> published s' = published s"
  by (auto simp: tryHandleNoConfig_def split: if_splits)

lemma handleFileName_keeps:
  "handleFileName pf e d l f s = (st, s') \<Longrightarrow>
   codeActions s' = codeActions s \<and> published s' = published s"
  by (auto simp: handleFileName_def Let_def split: if_splits)

lemma tryHandleConfigError_keeps:
  "tryHandleConfigError pf e d l s = (st, s') \<Longrightarrow>
   codeActions s' = codeActions s \<and> published s' = published s"
  unfolding tryHandleConfigError_def
  by (auto dest: handleFileName_keeps split: option.splits list.splits if_splits)

lemma handleMissingModule_keeps:
  "handleMissingModule pf d l plugin modul e s = (st, s') \<Longrightarrow>
   codeActions s' = codeActions s \<and> published s' = published s"
  by (auto simp: handleMissingModule_def Let_def split: if_splits)

lemma tryHandleMissingModule_keeps:
  "tryHandleMissingModule pf e d l s = (st, s') \<Longrightarrow>
   codeActions s' = codeActions s \<and> published s' = published s"
  unfolding tryHandleMissingModule_def
  by (auto dest: handleMissingModule_keeps split: option.splits list.splits if_splits)

lemma showErrorMessage_keeps:
  "showErrorMessage e d s = (st, s') \<Longrightarrow>
   codeActions s' = codeActions s \<and> published s' = published s"
  by (auto simp: showErrorMessage_def Let_def split: option.splits)

lemma runErrorHandlers_keeps:
  assumes "runErrorHandlers pf e d l s = (st, s')"
  shows "codeActions s' = codeActions s \<and> published s' = published s"
proof -
  obtain a1 s1 where h1: "tryHandleNoConfig e d l s = (a1, s1)" by (cases "tryHandleNoConfig e d l s")
  obtain a2 s2 where h2: "tryHandleConfigError pf e d l s1 = (a2, s2)" by (cases "tryHandleConfigError pf e d l s1")
  obtain a3 s3 where h3: "tryHandleMissingModule pf e d l s2 = (a3, s3)" by (cases "tryHandleMissingModule pf e d l s2")
  obtain a4 s4 where h4: "showErrorMessage e d s3 = (a4, s4)" by (cases "showErrorMessage e d s3")
  note k = tryHandleNoConfig_keeps [OF h1] tryHandleConfigError_keeps [OF h2]
    tryHandleMissingModule_keeps [OF h3] showErrorMessage_keeps [OF h4]
  from assms h1 h2 h3 h4 have "s' = s1 \<or> s' = s2 \<or> s' = s3 \<or> s' = s4"
    by (auto simp: runErrorHandlers_def split: option.splits)
  with k show ?thesis by auto
qed

text \<open>
  C10. When \<open>validate\<close> reaches the linter call, the document's entry in the fix store
  has been deleted in the state in which the linter is invoked. When the linter call
  then throws, \<open>validate\<close> ends with an error, with no fix entries for the document, and
  with the published diagnostics as they were; the same holds after \<open>validateSingle\<close>
  has run its error handlers.
\<close>

theorem validate_error_clears_fixes:
  assumes "validate_enter pf document settings s = (None, s1)"
  shows "codeActions s1 (uri document) = None \<and>
         isl (fst (validate pf document settings publishDiagnostics (Inl e) s)) \<and>
         codeActions (snd (validate pf document settings publishDiagnostics (Inl e) s))
           (uri document) = None \<and>
         published (snd (validate pf document settings publishDiagnostics (Inl e) s)) =
           published s \<and>
         (documents_get s (uri document) \<noteq> None \<and> validate_s settings \<longrightarrow>
            codeActions (validateSingle pf document publishDiagnostics settings (Inl e) s)
              (uri document) = None \<and>
            published (validateSingle pf document publishDiagnostics settings (Inl e) s) =
              published s)"
proof -
  have a: "codeActions s1 (uri document) = None"
    using validate_enter_reached [OF assms]
    by (metis fun_upd_same server.select_convs(4) server.surjective server.update_convs(1,4))
  note v = validate_linter_throws [OF assms, of publishDiagnostics e]
  obtain r s2 where vs: "validate pf document settings publishDiagnostics (Inl e) s = (r, s2)"
    by (cases "validate pf document settings publishDiagnostics (Inl e) s")
  with v obtain reason where r: "r = Inl reason" by (cases r) auto
  obtain st s3 where h: "runErrorHandlers pf reason document (library settings) s2 = (st, s3)"
    by (cases "runErrorHandlers pf reason document (library settings) s2")
  from runErrorHandlers_keeps [OF h] v vs
  have k: "codeActions s3 (uri document) = None" "published s3 = published s" by simp_all
  have "documents_get s (uri document) \<noteq> None \<and> validate_s settings \<longrightarrow>
            codeActions (validateSingle pf document publishDiagnostics settings (Inl e) s)
              (uri document) = None \<and>
            published (validateSingle pf document publishDiagnostics settings (Inl e) s) =
              published s"
    using k by (simp add: validateSingle_def vs r h)
  with a v show ?thesis by blast
qed

theorem validate_error_clears_fixes_witness:
  "fst (validate_enter examplePlatform (exampleDocument 6) exampleSettings (exampleStored 6)) = None \<and>
   codeActions (exampleStored 6) exampleUri \<noteq> None \<and>
   published (exampleStored 6) exampleUri = Some [makeDiagnostic (exampleProblem ''R'' 1 0 5)] \<and>
   codeActions (validateSingle examplePlatform (exampleDocument 6) True exampleSettings
                  (Inl exampleError) (exampleStored 6)) exampleUri = None \<and>
   published (validateSingle examplePlatform (exampleDocument 6) True exampleSettings
                  (Inl exampleError) (exampleStored 6)) exampleUri =
     Some [makeDiagnostic (exampleProblem ''R'' 1 0 5)]"
proof -
  have e: "validate_enter examplePlatform (exampleDocument 6) exampleSettings (exampleStored 6) =
           (None, (exampleStored 6)\<lparr> cwd := ''/ws'',
              codeActions := (codeActions (exampleStored 6))(exampleUri := None) \<rparr>)"
    by (simp add: validate_enter_def validate_chdir_def getFilePath_def
        getFileSystemPath_def chdir_def examplePlatform_def exampleDocument_def exampleUri_def
        exampleSettings_def exampleStored_def exampleServer_def)
  have d: "documents_get (exampleStored 6) (uri (exampleDocument 6)) \<noteq> None \<and>
           validate_s exampleSettings"
    by (simp add: documents_get_def exampleStored_def exampleServer_def exampleDocument_def
        exampleSettings_def)
  have u: "uri (exampleDocument 6) = exampleUri" by (simp add: exampleDocument_def)
  from validate_error_clears_fixes [OF e, of True exampleError] d
  have "codeActions (validateSingle examplePlatform (exampleDocument 6) True exampleSettings
                  (Inl exampleError) (exampleStored 6)) exampleUri = None \<and>
        published (validateSingle examplePlatform (exampleDocument 6) True exampleSettings
                  (Inl exampleError) (exampleStored 6)) = published (exampleStored 6)"
    unfolding u by blast
  with e show ?thesis by (simp add: exampleStored_def)
qed

section \<open>The version gate of the queue\<close>

lemma isStale_changed:
  "f w p = Inr current \<Longrightarrow> current \<noteq> Some v \<Longrightarrow> isStale (Some f) (Some v) w p = Inr True"
  by (auto simp: isStale_def)

text \<open>
  C1. When the message at the head of the queue has a recorded document version and the
  version provider registered for its method now returns something else for its params,
  \<open>processQueue\<close> removes the message without calling the handler: for a request the
  only effect is that its promise is rejected with the cancellation error, for a
  notification there is no effect at all. In particular a \<open>stylint/validate\<close>
  notification recorded at version \<open>vi\<close>, dequeued when the document object has a
  greater version, is dropped: no handler call is made and the server is unchanged.
\<close>

theorem processQueue_drops_stale:
  "(queue s = Request m p (Some v) token # rest \<and>
    requestHandlers reg m = Some (h, Some f) \<and>
    f (world s) p = Inr current \<and> current \<noteq> Some v \<longrightarrow>
      processQueue reg s =
        (Inr (), s\<lparr> queue := rest, settled := settled s @ [(token, Rejected requestCancelled)] \<rparr>)) \<and>
   (queue s = Notification m p (Some v) # rest \<and>
    notificationHandlers reg m = Some (g, Some f) \<and>
    f (world s) p = Inr current \<and> current \<noteq> Some v \<longrightarrow>
      processQueue reg s = (Inr (), s\<lparr> queue := rest \<rparr>)) \<and>
   (queue t = Notification validateMethod (DocumentParams r) (Some vi) # rest \<and>
    notificationHandlers vreg validateMethod = Some (k, Some validateVersion) \<and>
    version (heap (world t) r) > vi \<longrightarrow>
      processQueue vreg t = (Inr (), t\<lparr> queue := rest \<rparr>) \<and>
      invoked (snd (processQueue vreg t)) = invoked t \<and>
      world (snd (processQueue vreg t)) = world t)"
proof -
  have one: "processQueue reg s =
        (Inr (), s\<lparr> queue := rest, settled := settled s @ [(token, Rejected requestCancelled)] \<rparr>)"
    if a: "queue s = Request m p (Some v) token # rest \<and>
      requestHandlers reg m = Some (h, Some f) \<and>
      f (world s) p = Inr current \<and> current \<noteq> Some v"
  proof -
    from a have "isStale (Some f) (Some v) (world s) p = Inr True"
      by (simp add: isStale_changed)
    with a show ?thesis by (simp add: processQueue_def settle_def Let_def)
  qed
  have two: "processQueue reg s = (Inr (), s\<lparr> queue := rest \<rparr>)"
    if a: "queue s = Notification m p (Some v) # rest \<and>
      notificationHandlers reg m = Some (g, Some f) \<and>
      f (world s) p = Inr current \<and> current \<noteq> Some v"
  proof -
    from a have "isStale (Some f) (Some v) (world s) p = Inr True"
      by (simp add: isStale_changed)
    with a show ?thesis by (simp add: processQueue_def Let_def)
  qed
  have three: "processQueue vreg t = (Inr (), t\<lparr> queue := rest \<rparr>) \<and>
      invoked (snd (processQueue vreg t)) = invoked t \<and>
      world (snd (processQueue vreg t)) = world t"
    if a: "queue t = Notification validateMethod (DocumentParams r) (Some vi) # rest \<and>
      notificationHandlers vreg validateMethod = Some (k, Some validateVersion) \<and>
      version (heap (world t) r) > vi"
  proof -
    from a have "isStale (Some validateVersion) (Some vi) (world t) (DocumentParams r) = Inr True"
      by (simp add: isStale_def validateVersion_def)
    with a have "processQueue vreg t = (Inr (), t\<lparr> queue := rest \<rparr>)"
      by (simp add: processQueue_def Let_def)
    then show ?thesis by simp
  qed
  from one two three show ?thesis by blast
qed

lemma exampleEdited_eq:
  "exampleEdited =
     \<lparr> queue = [Notification validateMethod (DocumentParams 0) (Some 1),
                Request codeActionMethod (CodeActionParams exampleUri []) (Some 1) 2,
                Notification validateMethod (DocumentParams 0) (Some 2)],
       timer = True, cancellationRequested = (\<lambda>t. False), settled = [], invoked = [],
       world = exampleServer 2 \<rparr>"
  by (simp add: exampleEdited_def addNotificationMessage_def onRequest_def recordVersion_def
      codeActionProvider_def codeActionVersion_def documents_get_def exampleQueue_def
      exampleServer_def exampleDocument_def trigger_def)

lemma exampleRegistry_validate:
  "notificationHandlers exampleRegistry validateMethod =
     Some (validateHandler examplePlatform (\<lambda>d. exampleSettings)
             (\<lambda>d. exampleReport [exampleProblem ''R'' 1 0 5]), Some validateVersion)"
  by (simp add: exampleRegistry_def serverRegistry_def validateMethod_def watchedFilesMethod_def)

lemma exampleRegistry_codeAction:
  "requestHandlers exampleRegistry codeActionMethod =
     Some (codeActionRequestHandler, Some codeActionProvider)"
  by (simp add: exampleRegistry_def serverRegistry_def codeActionMethod_def executeCommandMethod_def)

theorem processQueue_drops_stale_witness:
  "queue exampleEdited =
     [Notification validateMethod (DocumentParams 0) (Some 1),
      Request codeActionMethod (CodeActionParams exampleUri []) (Some 1) 2,
      Notification validateMethod (DocumentParams 0) (Some 2)] \<and>
   version (heap (world exampleEdited) 0) = 2 \<and>
   processQueue exampleRegistry exampleEdited =
     (Inr (), exampleEdited
        \<lparr> queue := [Request codeActionMethod (CodeActionParams exampleUri []) (Some 1) 2,
                     Notification validateMethod (DocumentParams 0) (Some 2)] \<rparr>) \<and>
   processQueue exampleRegistry
     (exampleEdited
        \<lparr> queue := [Request codeActionMethod (CodeActionParams exampleUri []) (Some 1) 2,
                     Notification validateMethod (DocumentParams 0) (Some 2)] \<rparr>) =
     (Inr (), exampleEdited
        \<lparr> queue := [Notification validateMethod (DocumentParams 0) (Some 2)],
          settled := [(2, Rejected requestCancelled)] \<rparr>)"
proof -
  let ?rq = "Request codeActionMethod (CodeActionParams exampleUri []) (Some 1) 2"
  let ?n2 = "Notification validateMethod (DocumentParams 0) (Some 2)"
  have q: "queue exampleEdited =
     [Notification validateMethod (DocumentParams 0) (Some 1), ?rq, ?n2]"
    and v: "version (heap (world exampleEdited) 0) = 2"
    by (simp_all add: exampleEdited_eq exampleServer_def exampleDocument_def)
  have h3: "queue exampleEdited =
      Notification validateMethod (DocumentParams 0) (Some 1) # [?rq, ?n2] \<and>
    notificationHandlers exampleRegistry validateMethod =
      Some (validateHandler examplePlatform (\<lambda>d. exampleSettings)
             (\<lambda>d. exampleReport [exampleProblem ''R'' 1 0 5]), Some validateVersion) \<and>
    version (heap (world exampleEdited) 0) > 1"
    using q v exampleRegistry_validate by simp
  let ?s1 = "exampleEdited\<lparr> queue := [?rq, ?n2] \<rparr>"
  have h1: "queue ?s1 = Request codeActionMethod (CodeActionParams exampleUri []) (Some 1) 2 # [?n2] \<and>
    requestHandlers exampleRegistry codeActionMethod =
      Some (codeActionRequestHandler, Some codeActionProvider) \<and>
    codeActionProvider (world ?s1) (CodeActionParams exampleUri []) = Inr (Some 2) \<and>
    Some (2::int) \<noteq> Some 1"
    using exampleRegistry_codeAction
    by (simp add: exampleEdited_eq codeActionProvider_def codeActionVersion_def documents_get_def
        exampleServer_def exampleDocument_def)
  from processQueue_drops_stale [where t = exampleEdited and vreg = exampleRegistry and r = 0
      and vi = 1 and rest = "[?rq, ?n2]"
      and k = "validateHandler examplePlatform (\<lambda>d. exampleSettings)
             (\<lambda>d. exampleReport [exampleProblem ''R'' 1 0 5])"] h3
  have a: "processQueue exampleRegistry exampleEdited = (Inr (), ?s1)" by blast
  from processQueue_drops_stale [where s = ?s1 and reg = exampleRegistry
      and m = codeActionMethod and p = "CodeActionParams exampleUri []" and v = 1
      and token = 2 and rest = "[?n2]" and h = codeActionRequestHandler
      and f = codeActionProvider and current = "Some 2"] h1
  have b: "processQueue exampleRegistry ?s1 =
    (Inr (), ?s1\<lparr> queue := [?n2], settled := settled ?s1 @ [(2, Rejected requestCancelled)] \<rparr>)"
    by blast
  have "settled ?s1 = []" by (simp add: exampleEdited_eq)
  with q v a b show ?thesis by simp
qed

section \<open>Re-arming the drain trigger\<close>

lemma processQueue_handled_rearms:
  "queue s = Notification method p recorded # rest \<Longrightarrow>
   notificationHandlers reg method = Some (g, provider) \<Longrightarrow>
   isStale provider recorded (world s) p = Inr False \<Longrightarrow>
   g p (s\<lparr> queue := rest, invoked := invoked s @ [(method, p)] \<rparr>) = (Inr (), s1) \<Longrightarrow>
   processQueue reg s = (Inr (), trigger s1)"
  by (simp add: processQueue_def Let_def)

lemma runTimers_idle: "\<not> timer s \<Longrightarrow> runTimers reg n s = s"
  by (cases n) simp_all

lemma exampleCancelled_eq:
  "exampleCancelled =
     \<lparr> queue = [Request codeActionMethod (CodeActionParams exampleUri []) (Some 6) 1,
                Notification validateMethod (DocumentParams 0) (Some 6)],
       timer = True, cancellationRequested = (\<lambda>t. t = 1), settled = [], invoked = [],
       world = exampleServer 6 \<rparr>"
  by (simp add: exampleCancelled_def addNotificationMessage_def onRequest_def recordVersion_def
      codeActionProvider_def codeActionVersion_def documents_get_def exampleQueue_def
      exampleServer_def exampleDocument_def trigger_def)

text \<open>
  C3. The queue is not re-armed after a rejected or dropped message. A code-action
  request and a validation are queued and the request is cancelled before the timer
  callback runs: the callback rejects the request and returns, no callback is pending
  afterwards, and however long the event loop runs, the validation stays in the queue
  and no handler is called. Likewise, when the head of the queue is a stale
  \<open>stylint/validate\<close> notification, it is dropped and the request and the validation
  behind it stay in the queue with no callback pending.
\<close>

theorem cancelled_request_stalls_queue:
  "runTimers exampleRegistry (Suc n) exampleCancelled =
     \<lparr> queue = [Notification validateMethod (DocumentParams 0) (Some 6)],
       timer = False, cancellationRequested = (\<lambda>t. t = 1),
       settled = [(1, Rejected requestCancelled)], invoked = [],
       world = exampleServer 6 \<rparr> \<and>
   runTimers exampleRegistry (Suc n) exampleEdited =
     \<lparr> queue = [Request codeActionMethod (CodeActionParams exampleUri []) (Some 1) 2,
                Notification validateMethod (DocumentParams 0) (Some 2)],
       timer = False, cancellationRequested = (\<lambda>t. False), settled = [], invoked = [],
       world = exampleServer 2 \<rparr>"
  by (simp add: exampleCancelled_eq exampleEdited_eq timerCallback_def processQueue_def settle_def runTimers_idle Let_def
    exampleRegistry_validate isStale_def validateVersion_def exampleServer_def exampleDocument_def)

section \<open>Watched files and the error-dedup records\<close>

lemma clearedBy_cong:
  "reported k = reported' k \<Longrightarrow> clearedBy pf reported u k = clearedBy pf reported' u k"
  by (simp add: clearedBy_def)

lemma watchedChange_eq:
  "watchedChange pf u w =
     w\<lparr> configErrorReported :=
          (\<lambda>k. if clearedBy pf (configErrorReported w) u k then None
               else configErrorReported w k) \<rparr>"
proof -
  let ?f = "\<lambda>k. if clearedBy pf (configErrorReported w) u k then None else configErrorReported w k"
  show ?thesis
  proof (cases "\<exists>k. clearedBy pf (configErrorReported w) u k")
    case True
    then obtain k where k: "clearedBy pf (configErrorReported w) u k" by blast
    then have "?f = (configErrorReported w)(k := None)"
      by (auto simp: clearedBy_def fun_eq_iff)
    moreover from k have "watchedChange pf u w =
        w\<lparr> configErrorReported := (configErrorReported w)(k := None) \<rparr>"
      by (auto simp: watchedChange_def clearedBy_def Let_def split: option.splits)
    ultimately show ?thesis by simp
  next
    case False
    then have "?f = configErrorReported w" by (auto simp: fun_eq_iff)
    moreover from False have "watchedChange pf u w = w"
      by (auto simp: watchedChange_def clearedBy_def Let_def split: option.splits)
    ultimately show ?thesis by simp
  qed
qed

lemma fold_watchedChange:
  "fold (watchedChange pf) changes w =
     w\<lparr> configErrorReported :=
          (\<lambda>k. if \<exists>u \<in> set changes. clearedBy pf (configErrorReported w) u k then None
               else configErrorReported w k) \<rparr>"
proof (induction changes arbitrary: w)
  case Nil
  then show ?case by simp
next
  case (Cons u changes)
  let ?c = "\<lambda>k. if clearedBy pf (configErrorReported w) u k then None else configErrorReported w k"
  let ?w = "w\<lparr> configErrorReported := ?c \<rparr>"
  have "(\<lambda>k. if \<exists>u' \<in> set changes. clearedBy pf ?c u' k then None else ?c k) =
        (\<lambda>k. if \<exists>u' \<in> set (u # changes). clearedBy pf (configErrorReported w) u' k then None
             else configErrorReported w k)"
  proof
    fix k
    show "(if \<exists>u' \<in> set changes. clearedBy pf ?c u' k then None else ?c k) =
          (if \<exists>u' \<in> set (u # changes). clearedBy pf (configErrorReported w) u' k then None
           else configErrorReported w k)"
    proof (cases "clearedBy pf (configErrorReported w) u k")
      case True
      then show ?thesis by simp
    next
      case False
      then have "?c k = configErrorReported w k" by simp
      then have "clearedBy pf ?c u' k = clearedBy pf (configErrorReported w) u' k" for u'
        by (rule clearedBy_cong [where reported = ?c and reported' = "configErrorReported w"])
      with False show ?thesis by simp
    qed
  qed
  note f = this
  have e: "watchedChange pf u w = ?w" by (rule watchedChange_eq)
  have c: "configErrorReported ?w = ?c" by simp
  have "fold (watchedChange pf) (u # changes) w = fold (watchedChange pf) changes ?w"
    by (simp only: fold_simps e)
  also have "\<dots> = ?w\<lparr> configErrorReported :=
      (\<lambda>k. if \<exists>u' \<in> set changes. clearedBy pf ?c u' k then None else ?c k) \<rparr>"
    by (simp only: Cons.IH [of ?w] c)
  also have "\<dots> = w\<lparr> configErrorReported :=
      (\<lambda>k. if \<exists>u' \<in> set changes. clearedBy pf ?c u' k then None else ?c k) \<rparr>"
    by simp
  finally show ?case by (simp only: f)
qed

lemma validateMany_eq:
  "validateMany docs s =
     s\<lparr> queue := queue s @
           map (\<lambda>r. Notification validateMethod (DocumentParams r)
                      (Some (version (heap (world s) r)))) docs,
        timer := timer s \<or> docs \<noteq> [] \<rparr>"
  unfolding validateMany_def
proof (induction docs arbitrary: s)
  case Nil
  then show ?case by simp
next
  case (Cons r docs)
  then show ?case by (simp add: addNotificationMessage_def trigger_def)
qed

lemma exampleReported_world:
  "world exampleReported =
     (exampleServer 6)
       \<lparr> configErrorReported := [''/ws/.stylintrc'' \<mapsto> Some 0],
         outbox := [ConsoleError ''Cannot read config file: /ws/.stylintrc'',
                    ShowInformationMessage ''Cannot read config file: /ws/.stylintrc''] \<rparr>"
proof -
  have r: "regexExec examplePlatform CannotReadConfigFile ''Cannot read config file: /ws/.stylintrc'' =
     Some [''Cannot read config file: /ws/.stylintrc'', ''/ws/.stylintrc'', ''Unexpected token'']"
    by (simp add: examplePlatform_def)
  have m: "getMessage exampleConfigError (exampleDocument 6) =
     ''Cannot read config file: /ws/.stylintrc''"
    by (simp add: getMessage_def exampleConfigError_def lf_def cr_def)
  have t: "tryHandleConfigError examplePlatform exampleConfigError (exampleDocument 6) (Some 0)
       (exampleServer 6) =
     handleFileName examplePlatform exampleConfigError (exampleDocument 6) (Some 0)
       ''/ws/.stylintrc'' (exampleServer 6)"
    by (simp add: tryHandleConfigError_def r exampleConfigError_def)
  have h: "handleFileName examplePlatform exampleConfigError (exampleDocument 6) (Some 0)
       ''/ws/.stylintrc'' (exampleServer 6) =
     (Some warn, (exampleServer 6)
       \<lparr> configErrorReported := [''/ws/.stylintrc'' \<mapsto> Some 0],
         outbox := [ConsoleError ''Cannot read config file: /ws/.stylintrc'',
                    ShowInformationMessage ''Cannot read config file: /ws/.stylintrc''] \<rparr>)"
    by (simp add: handleFileName_def m documents_get_def examplePlatform_def exampleServer_def
        exampleUri_def)
  show ?thesis
    by (simp add: exampleReported_def exampleQueue_def t h)
qed

text \<open>
  C6, as stated, fails: a config-error record made by \<open>tryHandleConfigError\<close> for
  \<open>/ws/.stylintrc\<close> is still there after a watched-files notification about another
  config file has been handled.
\<close>

theorem watchedFiles_keeps_configErrors:
  "configErrorReported (world exampleReported) ''/ws/.stylintrc'' = Some (Some 0) \<and>
   configErrorReported
     (world (watchedFilesHandler examplePlatform [''file:///other/.stylintrc''] exampleReported))
     ''/ws/.stylintrc'' = Some (Some 0)"
  by (simp add: exampleReported_world watchedFilesHandler_def watchedChange_def
      getFilePath_uri_def getFileSystemPath_def isUNC_def examplePlatform_def
      validateMany_eq exampleServer_def Let_def)

text \<open>
  C6, amended. Handling a watched-files notification empties the no-config set and the
  missing-module set. From the config-error set it removes exactly the keys that are the
  file path of one of the changes (not a UNC path) and whose recorded library validates
  the \<open>*.styl\<close> files of that directory without throwing; every other record stays.
  After that every open document is appended to the queue as a \<open>stylint/validate\<close>
  notification at its current version.
\<close>

theorem watchedFiles_clears:
  "noConfigReported (world (watchedFilesHandler pf changes s)) = Map.empty \<and>
   missingModuleReported (world (watchedFilesHandler pf changes s)) = Map.empty \<and>
   (\<forall>k. configErrorReported (world (watchedFilesHandler pf changes s)) k =
      (if \<exists>u \<in> set changes. clearedBy pf (configErrorReported (world s)) u k then None
       else configErrorReported (world s) k)) \<and>
   queue (watchedFilesHandler pf changes s) =
     queue s @ map (\<lambda>r. Notification validateMethod (DocumentParams r)
                           (Some (version (heap (world s) r)))) (documents_all (world s))"
  by (simp add: watchedFilesHandler_def Let_def validateMany_eq fold_watchedChange
      documents_all_def)

theorem watchedFiles_clears_witness:
  "clearedBy examplePlatform (configErrorReported (world exampleReported))
     ''file:///ws/.stylintrc'' ''/ws/.stylintrc'' \<and>
   configErrorReported
     (world (watchedFilesHandler examplePlatform [''file:///ws/.stylintrc''] exampleReported))
     ''/ws/.stylintrc'' = None \<and>
   queue (watchedFilesHandler examplePlatform [''file:///ws/.stylintrc''] exampleReported) =
     [Notification validateMethod (DocumentParams 0) (Some 6)]"
proof -
  have c: "clearedBy examplePlatform (configErrorReported (world exampleReported))
     ''file:///ws/.stylintrc'' ''/ws/.stylintrc''"
    by (simp add: clearedBy_def exampleReported_world getFilePath_uri_def getFileSystemPath_def
        isUNC_def examplePlatform_def)
  then have "\<exists>u \<in> set [''file:///ws/.stylintrc''].
      clearedBy examplePlatform (configErrorReported (world exampleReported)) u ''/ws/.stylintrc''"
    by simp
  with watchedFiles_clears [of examplePlatform "[''file:///ws/.stylintrc'']" exampleReported]
  have "configErrorReported
     (world (watchedFilesHandler examplePlatform [''file:///ws/.stylintrc''] exampleReported))
     ''/ws/.stylintrc'' = None" by presburger
  moreover have "queue (watchedFilesHandler examplePlatform [''file:///ws/.stylintrc''] exampleReported) =
     [Notification validateMethod (DocumentParams 0) (Some 6)]"
  proof -
    from watchedFiles_clears [of examplePlatform "[''file:///ws/.stylintrc'']" exampleReported]
    have "queue (watchedFilesHandler examplePlatform [''file:///ws/.stylintrc''] exampleReported) =
      queue exampleReported @ map (\<lambda>r. Notification validateMethod (DocumentParams r)
        (Some (version (heap (world exampleReported) r)))) (documents_all (world exampleReported))"
      by blast
    moreover have "queue exampleReported = []"
      by (simp add: exampleReported_def exampleQueue_def)
    moreover have "documents_all (world exampleReported) = [0]"
      "version (heap (world exampleReported) 0) = 6"
      by (simp_all add: exampleReported_world documents_all_def exampleServer_def
          exampleDocument_def)
    ultimately show ?thesis by simp
  qed
  ultimately show ?thesis using c by simp
qed

section \<open>The bulk fixes of a code-action request\<close>

lemma scopedLoop_eq:
  "scoped \<noteq> [] \<Longrightarrow>
   scopedLoop td u scoped (dv0, rid0, cmds0, res0) =
     (documentVersion (last scoped), Some (ruleId (last scoped)),
      cmds0(applySingleFix \<mapsto>
        \<lparr> wc_uri = u, wc_version = documentVersion (last scoped),
          wc_edits = [createTextEdit td (last scoped)] \<rparr>),
      res0 @ map singleAction scoped)"
proof (induction scoped arbitrary: dv0 rid0 cmds0 res0)
  case Nil
  then show ?case by simp
next
  case (Cons e rest)
  show ?case
  proof (cases "rest = []")
    case True
    then show ?thesis by (auto simp: singleAction_def Let_def fun_eq_iff)
  next
    case False
    with Cons.IH show ?thesis by (auto simp: singleAction_def Let_def fun_eq_iff)
  qed
qed

lemma bulkLoop_snoc:
  "bulkLoop rid (xs @ [x]) st =
     (case bulkLoop rid xs st of
        (dv, same, alls) \<Rightarrow>
          (if dv = - 1 then documentVersion x else dv,
           if Some (ruleId x) = rid \<and> \<not> overlaps (getLastEdit same) x then same @ [x] else same,
           if \<not> overlaps (getLastEdit alls) x then alls @ [x] else alls))"
proof (induction xs arbitrary: st)
  case Nil
  then show ?case by (cases st) simp
next
  case (Cons y ys)
  then show ?case by (cases st) simp
qed

lemma bulkLoop_eq:
  "\<exists>dv'. bulkLoop (Some rid) xs (dv, [], []) =
     (dv', overlapFreeOf (filter (\<lambda>e. ruleId e = rid) xs), overlapFreeOf xs)"
proof (induction xs rule: rev_induct)
  case Nil
  then show ?case by simp
next
  case (snoc x xs)
  then obtain dv' where
    "bulkLoop (Some rid) xs (dv, [], []) =
       (dv', overlapFreeOf (filter (\<lambda>e. ruleId e = rid) xs), overlapFreeOf xs)"
    by blast
  then show ?case
    by (simp add: bulkLoop_snoc overlapFreeOf_snoc)
qed

lemma getScoped_Nil: "getScoped [] diagnostics = []"
  by (induction diagnostics) simp_all

lemma commandIds_distinct:
  "applySingleFix \<noteq> applySameFixes" "applySingleFix \<noteq> applyAllFixes"
  "applySameFixes \<noteq> applyAllFixes" "applySameFixes \<noteq> applySingleFix"
  "applyAllFixes \<noteq> applySingleFix" "applyAllFixes \<noteq> applySameFixes"
  by (simp_all add: applySingleFix_def applySameFixes_def applyAllFixes_def)

lemma codeActionHandler_bulk:
  assumes "codeActions s u = Some edits"
    and "documents_get s u = Some td"
    and "getScoped edits diagnostics \<noteq> []"
  shows "\<exists>cmds.
     codeActionHandler u diagnostics s =
       (Inr (map singleAction (getScoped edits diagnostics) @
             (if 1 < length (sameRuleFixes edits (ruleId (last (getScoped edits diagnostics))))
              then [sameAction (ruleId (last (getScoped edits diagnostics)))] else []) @
             (if 1 < length (getOverlapFree edits) then [allAction] else [])),
        s\<lparr> commands := Some cmds \<rparr>) \<and>
     map_option wc_edits (cmds applySameFixes) =
       (if 1 < length (sameRuleFixes edits (ruleId (last (getScoped edits diagnostics))))
        then Some (map (createTextEdit td)
                     (sameRuleFixes edits (ruleId (last (getScoped edits diagnostics)))))
        else None) \<and>
     map_option wc_edits (cmds applyAllFixes) =
       (if 1 < length (getOverlapFree edits)
        then Some (map (createTextEdit td) (getOverlapFree edits)) else None)"
proof -
  let ?s = "s\<lparr> commands := Some Map.empty \<rparr>"
  let ?scoped = "getScoped edits diagnostics"
  let ?rid = "ruleId (last ?scoped)"
  let ?same = "sameRuleFixes edits ?rid"
  let ?alls = "getOverlapFree edits"
  let ?single = "\<lparr> wc_uri = u, wc_version = documentVersion (last ?scoped),
                   wc_edits = [createTextEdit td (last ?scoped)] \<rparr>"
  from assms(3) have ne: "\<not> isEmpty edits"
    by (auto simp: isEmpty_def getScoped_Nil)
  have c: "codeActions ?s u = Some edits" using assms(1) by simp
  have d: "documents_get ?s u = Some td" using assms(2) by (simp add: documents_get_def)
  have l: "scopedLoop td u ?scoped (- 1, None, Map.empty, []) =
     (documentVersion (last ?scoped), Some ?rid, [applySingleFix \<mapsto> ?single],
      map singleAction ?scoped)"
    using scopedLoop_eq [OF assms(3), of td u "- 1" None Map.empty "[]"] by simp
  obtain dv' where b: "bulkLoop (Some ?rid) (getAllSorted edits)
      (documentVersion (last ?scoped), [], []) = (dv', ?same, ?alls)"
    using bulkLoop_eq [of ?rid "getAllSorted edits" "documentVersion (last ?scoped)"]
    by (auto simp: sameRuleFixes_def getOverlapFree_def)
  have pos: "0 < length (map singleAction ?scoped)" using assms(3) by simp
  let ?cmds2 = "if 1 < length ?same
     then [applySingleFix \<mapsto> ?single,
           applySameFixes \<mapsto> \<lparr> wc_uri = u, wc_version = dv',
                                 wc_edits = map (createTextEdit td) ?same \<rparr>]
     else [applySingleFix \<mapsto> ?single]"
  let ?cmds3 = "if 1 < length ?alls
     then ?cmds2(applyAllFixes \<mapsto> \<lparr> wc_uri = u, wc_version = dv',
                                 wc_edits = map (createTextEdit td) ?alls \<rparr>)
     else ?cmds2"
  have h: "codeActionHandler u diagnostics s =
       (Inr (map singleAction ?scoped @
             (if 1 < length ?same then [sameAction ?rid] else []) @
             (if 1 < length ?alls then [allAction] else [])),
        s\<lparr> commands := Some ?cmds3 \<rparr>)"
    unfolding codeActionHandler_def Let_def c d
    using ne assms(3) pos
    by (simp add: l b sameAction_def allAction_def)
  have s1: "map_option wc_edits (?cmds3 applySameFixes) =
       (if 1 < length ?same then Some (map (createTextEdit td) ?same) else None)"
    by (simp add: commandIds_distinct)
  have s2: "map_option wc_edits (?cmds3 applyAllFixes) =
       (if 1 < length ?alls then Some (map (createTextEdit td) ?alls) else None)"
    by (simp add: commandIds_distinct)
  from h s1 s2 show ?thesis by blast
qed

lemma exampleKeys:
  "computeKey (makeDiagnostic (exampleProblem ''R'' 1 0 2)) = ''[0,0,0,0]-R''"
  "computeKey (makeDiagnostic (exampleProblem ''R'' 5 4 6)) = ''[0,4,0,4]-R''"
  "computeKey (makeDiagnostic (exampleProblem ''R'' 13 12 14)) = ''[0,12,0,12]-R''"
  "computeKey (makeDiagnostic (exampleProblem ''S'' 9 8 10)) = ''[0,8,0,8]-S''"
  by (simp_all add: computeKey_def makeDiagnostic_def exampleProblem_def showInt_def
      showNat.simps convertSeverity_def)

lemma exampleRecord:
  "recordCodeAction (exampleDocument 6) (makeDiagnostic (exampleProblem r c a b))
     (exampleProblem r c a b) s =
   (if r = [] then s
    else s\<lparr> codeActions := (codeActions s)(exampleUri \<mapsto>
              AList.update (computeKey (makeDiagnostic (exampleProblem r c a b))) (mkFix r a b)
                (case codeActions s exampleUri of None \<Rightarrow> [] | Some es \<Rightarrow> es)) \<rparr>)"
  by (simp add: recordCodeAction_def exampleProblem_def exampleDocument_def mkFix_def Let_def)

lemma exampleEnter:
  "validate_enter examplePlatform (exampleDocument 6) exampleSettings (exampleServer 6) =
     (None, (exampleServer 6)\<lparr> cwd := ''/ws'' \<rparr>)"
  by (simp add: validate_enter_def validate_chdir_def getFilePath_def
        getFileSystemPath_def chdir_def examplePlatform_def exampleDocument_def exampleUri_def
        exampleSettings_def exampleServer_def)

lemma exampleFour_store:
  "codeActions (exampleValidated exampleFour) exampleUri = Some exampleFourFixes \<and>
   documents_get (exampleValidated exampleFour) exampleUri = Some (exampleDocument 6)"
proof -
  have r: "recordProblems (exampleDocument 6) True (map Some exampleFour)
             ([], (exampleServer 6)\<lparr> cwd := ''/ws'' \<rparr>) =
           (map makeDiagnostic exampleFour,
            (exampleServer 6)\<lparr> cwd := ''/ws'',
               codeActions := [exampleUri \<mapsto> exampleFourFixes] \<rparr>)"
    by (simp add: exampleFour_def exampleRecord exampleKeys exampleFourFixes_def)
       (simp add: exampleServer_def)
  have pe: "published (exampleServer 6) = Map.empty" by (simp add: exampleServer_def)
  have af: "autoFix exampleSettings" by (simp add: exampleSettings_def)
  have u: "uri (exampleDocument 6) = exampleUri" by (simp add: exampleDocument_def)
  have t: "validate_try examplePlatform (exampleDocument 6) exampleSettings True
             (exampleReport exampleFour) (exampleServer 6) =
           (Inr (), (exampleServer 6)\<lparr> cwd := ''/ws'',
               codeActions := [exampleUri \<mapsto> exampleFourFixes],
               published := [exampleUri \<mapsto> map makeDiagnostic exampleFour] \<rparr>)"
    by (simp add: validate_try_def exampleEnter exampleReport_def validate_report_def r af u pe)
  have v: "exampleValidated exampleFour =
           (exampleServer 6)\<lparr> cwd := ''/home'',
               codeActions := [exampleUri \<mapsto> exampleFourFixes],
               published := [exampleUri \<mapsto> map makeDiagnostic exampleFour] \<rparr>"
    by (simp add: exampleValidated_def validate_try_cases t)
       (simp add: chdir_def examplePlatform_def exampleServer_def)
  show ?thesis
    by (simp add: v documents_get_def) (simp add: exampleServer_def)
qed


text \<open>
  C5, amended. When the document is open and the request's diagnostics match at least one
  stored fix, the handler answers with one action per scoped fix, then the "fix all
  same-rule" action exactly when the same-rule subset for the rule id of the last scoped
  fix (the entries of \<open>getAllSorted\<close> with that rule id, greedily overlap-filtered on
  their own) has more than one entry, then the "fix all" action exactly when
  \<open>getOverlapFree\<close> has more than one entry; the command stored for each bulk action
  carries exactly the edits of that subset.
\<close>

theorem codeAction_bulk_fixes:
  assumes "codeActions s u = Some edits"
    and "documents_get s u = Some td"
    and "getScoped edits diagnostics \<noteq> []"
  shows "fst (codeActionHandler u diagnostics s) =
       Inr (map singleAction (getScoped edits diagnostics) @
            (if 1 < length (sameRuleFixes edits (ruleId (last (getScoped edits diagnostics))))
             then [sameAction (ruleId (last (getScoped edits diagnostics)))] else []) @
            (if 1 < length (getOverlapFree edits) then [allAction] else [])) \<and>
     map_option wc_edits (commands_get (snd (codeActionHandler u diagnostics s)) applySameFixes) =
       (if 1 < length (sameRuleFixes edits (ruleId (last (getScoped edits diagnostics))))
        then Some (map (createTextEdit td)
                     (sameRuleFixes edits (ruleId (last (getScoped edits diagnostics)))))
        else None) \<and>
     map_option wc_edits (commands_get (snd (codeActionHandler u diagnostics s)) applyAllFixes) =
       (if 1 < length (getOverlapFree edits)
        then Some (map (createTextEdit td) (getOverlapFree edits)) else None)"
proof -
  from codeActionHandler_bulk [OF assms] obtain cmds where
    h: "codeActionHandler u diagnostics s =
       (Inr (map singleAction (getScoped edits diagnostics) @
             (if 1 < length (sameRuleFixes edits (ruleId (last (getScoped edits diagnostics))))
              then [sameAction (ruleId (last (getScoped edits diagnostics)))] else []) @
             (if 1 < length (getOverlapFree edits) then [allAction] else [])),
        s\<lparr> commands := Some cmds \<rparr>)"
    and c1: "map_option wc_edits (cmds applySameFixes) =
       (if 1 < length (sameRuleFixes edits (ruleId (last (getScoped edits diagnostics))))
        then Some (map (createTextEdit td)
                     (sameRuleFixes edits (ruleId (last (getScoped edits diagnostics)))))
        else None)"
    and c2: "map_option wc_edits (cmds applyAllFixes) =
       (if 1 < length (getOverlapFree edits)
        then Some (map (createTextEdit td) (getOverlapFree edits)) else None)"
    by blast
  have "commands_get (snd (codeActionHandler u diagnostics s)) c = cmds c" for c
    by (simp add: h commands_get_def)
  with h c1 c2 show ?thesis by simp
qed

lemma mkFix_ruleId: "ruleId (mkFix r a b) = r"
  by (simp add: mkFix_def)

lemma exampleFour_sorted:
  "getAllSorted exampleFourFixes =
     [mkFix ''R'' 0 2, mkFix ''R'' 4 6, mkFix ''S'' 8 10, mkFix ''R'' 12 14]"
  by (simp add: getAllSorted_def sortBy_def exampleFourFixes_def compareFixes_def mkFix_def)

lemma exampleFour_overlapFree:
  "getOverlapFree exampleFourFixes =
     [mkFix ''R'' 0 2, mkFix ''R'' 4 6, mkFix ''S'' 8 10, mkFix ''R'' 12 14]"
  by (simp add: getOverlapFree_def exampleFour_sorted overlapFreeOf_def) (simp add: mkFix_def)

lemma exampleFour_same:
  "sameRuleFixes exampleFourFixes ''R'' = [mkFix ''R'' 0 2, mkFix ''R'' 4 6, mkFix ''R'' 12 14]"
  "sameRuleFixes exampleFourFixes ''S'' = [mkFix ''S'' 8 10]"
  by (simp_all add: sameRuleFixes_def exampleFour_sorted overlapFreeOf_def) (simp_all add: mkFix_def)

lemma exampleFour_scoped:
  "getScoped exampleFourFixes [makeDiagnostic (exampleProblem ''R'' 1 0 2)] = [mkFix ''R'' 0 2]"
  "getScoped exampleFourFixes
     [makeDiagnostic (exampleProblem ''R'' 1 0 2), makeDiagnostic (exampleProblem ''S'' 9 8 10)] =
     [mkFix ''R'' 0 2, mkFix ''S'' 8 10]"
  by (simp_all add: exampleKeys exampleFourFixes_def)

text \<open>
  C5, as stated, fails: after a validation that recorded three fixes of rule R and one of
  rule S, a request whose diagnostics match a fix of R and then the fix of S has a first
  scoped fix of rule R, whose same-rule subset has three entries, and yet the answer has
  no "fix all same-rule" action and no command is stored for it.
\<close>

theorem codeAction_first_rule_counterexample:
  "codeActions (exampleValidated exampleFour) exampleUri = Some exampleFourFixes \<and>
   ruleId (hd (getScoped exampleFourFixes
     [makeDiagnostic (exampleProblem ''R'' 1 0 2), makeDiagnostic (exampleProblem ''S'' 9 8 10)])) = ''R'' \<and>
   length (sameRuleFixes exampleFourFixes ''R'') = 3 \<and>
   fst (codeActionHandler exampleUri
     [makeDiagnostic (exampleProblem ''R'' 1 0 2), makeDiagnostic (exampleProblem ''S'' 9 8 10)]
     (exampleValidated exampleFour)) =
     Inr [singleAction (mkFix ''R'' 0 2), singleAction (mkFix ''S'' 8 10), allAction] \<and>
   commands_get (snd (codeActionHandler exampleUri
     [makeDiagnostic (exampleProblem ''R'' 1 0 2), makeDiagnostic (exampleProblem ''S'' 9 8 10)]
     (exampleValidated exampleFour))) applySameFixes = None"
proof -
  let ?ds = "[makeDiagnostic (exampleProblem ''R'' 1 0 2), makeDiagnostic (exampleProblem ''S'' 9 8 10)]"
  have ne: "getScoped exampleFourFixes ?ds \<noteq> []" unfolding exampleFour_scoped by simp
  have "\<exists>cmds. codeActionHandler exampleUri ?ds (exampleValidated exampleFour) =
         (Inr [singleAction (mkFix ''R'' 0 2), singleAction (mkFix ''S'' 8 10), allAction],
          (exampleValidated exampleFour)\<lparr> commands := Some cmds \<rparr>) \<and>
       map_option wc_edits (cmds applySameFixes) = None"
    using codeActionHandler_bulk [OF conjunct1 [OF exampleFour_store]
        conjunct2 [OF exampleFour_store] ne]
    unfolding exampleFour_scoped
    by (auto simp add: mkFix_ruleId exampleFour_same exampleFour_overlapFree)
  then obtain cmds where
    h: "codeActionHandler exampleUri ?ds (exampleValidated exampleFour) =
         (Inr [singleAction (mkFix ''R'' 0 2), singleAction (mkFix ''S'' 8 10), allAction],
          (exampleValidated exampleFour)\<lparr> commands := Some cmds \<rparr>)"
    and c: "map_option wc_edits (cmds applySameFixes) = None"
    by (elim exE conjE)
  from c have "cmds applySameFixes = None" by simp
  then have "commands_get (snd (codeActionHandler exampleUri ?ds (exampleValidated exampleFour)))
      applySameFixes = None"
    by (simp add: h commands_get_def)
  then show ?thesis
    using exampleFour_store
    unfolding exampleFour_scoped by (simp add: h exampleFour_same) (simp add: mkFix_def)
qed

theorem codeAction_bulk_fixes_witness:
  "codeActions (exampleValidated exampleFour) exampleUri = Some exampleFourFixes \<and>
   documents_get (exampleValidated exampleFour) exampleUri = Some (exampleDocument 6) \<and>
   getScoped exampleFourFixes [makeDiagnostic (exampleProblem ''R'' 1 0 2)] = [mkFix ''R'' 0 2] \<and>
   fst (codeActionHandler exampleUri [makeDiagnostic (exampleProblem ''R'' 1 0 2)]
          (exampleValidated exampleFour)) =
     Inr [singleAction (mkFix ''R'' 0 2), sameAction ''R'', allAction] \<and>
   map_option wc_edits
     (commands_get (snd (codeActionHandler exampleUri [makeDiagnostic (exampleProblem ''R'' 1 0 2)]
          (exampleValidated exampleFour))) applySameFixes) =
     Some (map (createTextEdit (exampleDocument 6))
             [mkFix ''R'' 0 2, mkFix ''R'' 4 6, mkFix ''R'' 12 14]) \<and>
   map_option wc_edits
     (commands_get (snd (codeActionHandler exampleUri [makeDiagnostic (exampleProblem ''R'' 1 0 2)]
          (exampleValidated exampleFour))) applyAllFixes) =
     Some (map (createTextEdit (exampleDocument 6))
             [mkFix ''R'' 0 2, mkFix ''R'' 4 6, mkFix ''S'' 8 10, mkFix ''R'' 12 14])"
proof -
  let ?ds = "[makeDiagnostic (exampleProblem ''R'' 1 0 2)]"
  have ne: "getScoped exampleFourFixes ?ds \<noteq> []" unfolding exampleFour_scoped by simp
  note t = codeAction_bulk_fixes [OF conjunct1 [OF exampleFour_store]
      conjunct2 [OF exampleFour_store] ne]
  from t exampleFour_store show ?thesis
    unfolding exampleFour_scoped by (simp add: mkFix_ruleId exampleFour_same exampleFour_overlapFree)
qed

end
